theory Spec2Isabelle
  imports Complex_Main
begin

section \<open>JavaScript values and the operators the module applies to them\<close>

text \<open>
  The payload of an envelope is parsed JSON. Numbers are carried as integers: the module
  applies \<open>typeof\<close> to them, stores them, prints a zone id and hands them on, and
  never computes with them. \<open>JUndefined\<close> is what reading an absent property
  yields. An object is its list of properties; the first entry of a name is the one read.
\<close>

datatype json =
    JUndefined
  | JNull
  | JBool bool
  | JNum int
  | JStr string
  | JArr "json list"
  | JObj "(string \<times> json) list"

text \<open>
  What a call can raise: \<open>TypeError\<close> is JavaScript's own (a property of
  \<open>undefined\<close> or \<open>null\<close>, \<open>in\<close> on \<open>null\<close>, a call
  of something that is no function); \<open>HostError\<close> stands for an exception that
  \<open>RPGM.newJavascriptError\<close> raises itself, if the host makes it do so;
  \<open>LeafletError\<close> for one raised inside the map widget.
\<close>

datatype js_error = TypeError | HostError | LeafletError

datatype completion = Normal | Throw js_error

fun typeof :: "json \<Rightarrow> string" where
  "typeof JUndefined = ''undefined''"
| "typeof JNull = ''object''"
| "typeof (JBool b) = ''boolean''"
| "typeof (JNum n) = ''number''"
| "typeof (JStr s) = ''string''"
| "typeof (JArr xs) = ''object''"
| "typeof (JObj kvs) = ''object''"

text \<open>The truth value an \<open>if\<close> gives to a value.\<close>

fun truthy :: "json \<Rightarrow> bool" where
  "truthy JUndefined = False"
| "truthy JNull = False"
| "truthy (JBool b) = b"
| "truthy (JNum n) = (n \<noteq> 0)"
| "truthy (JStr s) = (s \<noteq> [])"
| "truthy (JArr xs) = True"
| "truthy (JObj kvs) = True"

text \<open>
  \<open>a === b\<close>. Primitives compare by value. An array or an object is equal to
  itself only, and the values compared here come from different envelopes, so they are
  never the same object.
\<close>

fun strict_eq :: "json \<Rightarrow> json \<Rightarrow> bool" where
  "strict_eq (JArr xs) b = False"
| "strict_eq (JObj kvs) b = False"
| "strict_eq a b = (a = b)"

text \<open>
  \<open>v.k\<close> for the property names the module reads (\<open>mapId\<close>, \<open>lat\<close>,
  \<open>points\<close>, ...): none of them is a built-in property of a string, a number, a
  boolean or an array, so only an object can hold one.
\<close>

fun get_prop :: "json \<Rightarrow> string \<Rightarrow> js_error + json" where
  "get_prop JUndefined k = Inl TypeError"
| "get_prop JNull k = Inl TypeError"
| "get_prop (JObj kvs) k = Inr (case map_of kvs k of None \<Rightarrow> JUndefined | Some v \<Rightarrow> v)"
| "get_prop v k = Inr JUndefined"

text \<open>\<open>k in v\<close>, which raises unless \<open>v\<close> is an object or an array.\<close>

fun has_prop :: "string \<Rightarrow> json \<Rightarrow> js_error + bool" where
  "has_prop k (JObj kvs) = Inr (map_of kvs k \<noteq> None)"
| "has_prop k (JArr xs) = Inr False"
| "has_prop k v = Inl TypeError"

text \<open>Decimal digits of a natural number, for printing numbers and array indices.\<close>

fun digits :: "nat \<Rightarrow> string" where
  "digits n =
     (if n < 10 then [''0123456789'' ! n]
      else digits (n div 10) @ [''0123456789'' ! (n mod 10)])"

declare digits.simps [simp del]

text \<open>\<open>v[i]\<close> for an index \<open>i\<close>.\<close>

fun get_index :: "json \<Rightarrow> nat \<Rightarrow> js_error + json" where
  "get_index JUndefined i = Inl TypeError"
| "get_index JNull i = Inl TypeError"
| "get_index (JArr xs) i = Inr (if i < length xs then xs ! i else JUndefined)"
| "get_index (JStr s) i = Inr (if i < length s then JStr [s ! i] else JUndefined)"
| "get_index (JObj kvs) i =
     Inr (case map_of kvs (digits i) of None \<Rightarrow> JUndefined | Some v \<Rightarrow> v)"
| "get_index v i = Inr JUndefined"

fun isArray :: "json \<Rightarrow> bool" where
  "isArray (JArr xs) = True"
| "isArray v = False"

text \<open>
  The string a template literal \<open>`${v}`\<close> puts in for a value: an array prints its
  elements separated by commas, with nothing for \<open>null\<close> and \<open>undefined\<close>.
  An integer is printed in plain decimal, which is what JavaScript prints below
  \<open>10^21\<close>; from there on JavaScript prints an exponent form, so the digits of
  \<open>js_String\<close> are the program's for smaller numbers only. The conversion raises
  \<open>TypeError\<close> for an object that carries a property \<open>toString\<close> of its
  own (no JSON value can be called), also inside an array: \<open>printable\<close> says
  that it does not raise.
\<close>

fun join_comma :: "string list \<Rightarrow> string" where
  "join_comma [] = []"
| "join_comma [s] = s"
| "join_comma (s # t # ss) = s @ '','' @ join_comma (t # ss)"

fun js_String :: "json \<Rightarrow> string" where
  "js_String JUndefined = ''undefined''"
| "js_String JNull = ''null''"
| "js_String (JBool b) = (if b then ''true'' else ''false'')"
| "js_String (JNum n) = (if n < 0 then ''-'' @ digits (nat (- n)) else digits (nat n))"
| "js_String (JStr s) = s"
| "js_String (JArr xs) =
     join_comma (map (\<lambda>x. if x = JNull \<or> x = JUndefined then [] else js_String x) xs)"
| "js_String (JObj kvs) = ''[object Object]''"

fun printable :: "json \<Rightarrow> bool" where
  "printable (JArr xs) = list_all printable xs"
| "printable (JObj kvs) = (map_of kvs ''toString'' = None)"
| "printable v = True"

text \<open>
  \<open>isNaN(v)\<close>, for a value that can be converted: the value is made a number, a
  string by the grammar of numeric strings (white space around it is dropped; the empty
  string is \<open>0\<close>; a decimal literal with an optional sign, fraction and exponent,
  \<open>Infinity\<close>, or an unsigned binary, octal or hexadecimal literal), an array or an
  object through its string. The white space characters are given in UTF-8.
\<close>

definition ws_units :: "string list" where
  "ws_units =
     [[CHR 0x09], [CHR 0x0A], [CHR 0x0B], [CHR 0x0C], [CHR 0x0D], [CHR 0x20],
      [CHR 0xC2, CHR 0xA0], [CHR 0xE1, CHR 0x9A, CHR 0x80],
      [CHR 0xE2, CHR 0x80, CHR 0x80], [CHR 0xE2, CHR 0x80, CHR 0x81],
      [CHR 0xE2, CHR 0x80, CHR 0x82], [CHR 0xE2, CHR 0x80, CHR 0x83],
      [CHR 0xE2, CHR 0x80, CHR 0x84], [CHR 0xE2, CHR 0x80, CHR 0x85],
      [CHR 0xE2, CHR 0x80, CHR 0x86], [CHR 0xE2, CHR 0x80, CHR 0x87],
      [CHR 0xE2, CHR 0x80, CHR 0x88], [CHR 0xE2, CHR 0x80, CHR 0x89],
      [CHR 0xE2, CHR 0x80, CHR 0x8A], [CHR 0xE2, CHR 0x80, CHR 0xA8],
      [CHR 0xE2, CHR 0x80, CHR 0xA9], [CHR 0xE2, CHR 0x80, CHR 0xAF],
      [CHR 0xE2, CHR 0x81, CHR 0x9F], [CHR 0xE3, CHR 0x80, CHR 0x80],
      [CHR 0xEF, CHR 0xBB, CHR 0xBF]]"

fun drop_ws :: "nat \<Rightarrow> string list \<Rightarrow> string \<Rightarrow> string" where
  "drop_ws 0 us s = s"
| "drop_ws (Suc n) us s =
     (case find (\<lambda>u. take (length u) s = u) us of
        None \<Rightarrow> s
      | Some u \<Rightarrow> drop_ws n us (drop (length u) s))"

definition trim :: "string \<Rightarrow> string" where
  "trim s = rev (drop_ws (length s) (map rev ws_units) (rev (drop_ws (length s) ws_units s)))"

definition is_digit :: "char \<Rightarrow> bool" where
  "is_digit c = (c \<in> set ''0123456789'')"

definition unsigned :: "string \<Rightarrow> string" where
  "unsigned s =
     (case s of
        [] \<Rightarrow> []
      | c # r \<Rightarrow> if c = CHR ''+'' \<or> c = CHR ''-'' then r else s)"

definition exponent_ok :: "string \<Rightarrow> bool" where
  "exponent_ok r =
     (case r of
        [] \<Rightarrow> True
      | e # r' \<Rightarrow>
         (e = CHR ''e'' \<or> e = CHR ''E'') \<and> unsigned r' \<noteq> [] \<and> list_all is_digit (unsigned r'))"

definition unsigned_decimal :: "string \<Rightarrow> bool" where
  "unsigned_decimal s =
     (if s = ''Infinity'' then True
      else (let d1 = takeWhile is_digit s; r1 = dropWhile is_digit s in
            case r1 of
              [] \<Rightarrow> d1 \<noteq> []
            | c # r2 \<Rightarrow>
               if c = CHR ''.''
               then \<not> (d1 = [] \<and> takeWhile is_digit r2 = []) \<and>
                    exponent_ok (dropWhile is_digit r2)
               else d1 \<noteq> [] \<and> exponent_ok r1))"

definition non_decimal :: "string \<Rightarrow> bool" where
  "non_decimal s =
     (case s of
        z # p # ds \<Rightarrow>
          z = CHR ''0'' \<and> ds \<noteq> [] \<and>
          (if p \<in> set ''xX'' then list_all (\<lambda>c. c \<in> set ''0123456789abcdefABCDEF'') ds
           else if p \<in> set ''oO'' then list_all (\<lambda>c. c \<in> set ''01234567'') ds
           else if p \<in> set ''bB'' then list_all (\<lambda>c. c \<in> set ''01'') ds
           else False)
      | _ \<Rightarrow> False)"

definition numeric_string :: "string \<Rightarrow> bool" where
  "numeric_string s =
     (let t = trim s in
      if t = [] then True
      else if non_decimal t then True
      else unsigned_decimal (unsigned t))"

fun js_isNaN :: "json \<Rightarrow> bool" where
  "js_isNaN JUndefined = True"
| "js_isNaN JNull = False"
| "js_isNaN (JBool b) = False"
| "js_isNaN (JNum n) = False"
| "js_isNaN (JStr s) = (\<not> numeric_string s)"
| "js_isNaN (JArr xs) = (\<not> numeric_string (js_String (JArr xs)))"
| "js_isNaN (JObj kvs) = True"


section \<open>The data of a map session\<close>

text \<open>A queued zone, as \<open>addGeoJSON\<close> pushes it: \<open>{points, id, tooltip, color}\<close>.\<close>

record zone =
  z_points :: json
  z_id :: json
  z_tooltip :: json
  z_color :: json

datatype geom_type = Polygon | MultiPolygon

text \<open>
  A GeoJSON feature as \<open>drawGeoJSON\<close> builds it: \<open>properties\<close>
  \<open>{id, color, tooltip}\<close> and \<open>geometry\<close> \<open>{type, coordinates}\<close>.
\<close>

record feature =
  f_id :: string
  f_color :: json
  f_tooltip :: json
  g_type :: geom_type
  coordinates :: json

text \<open>
  The path options the module sets on a rendered feature. \<open>weight\<close> is
  \<open>None\<close> while the module has not set it (the widget's default applies).
\<close>

record path_style =
  fillColor :: json
  opacity :: real
  color :: string
  dashArray :: json
  fillOpacity :: real
  weight :: "real option"

text \<open>
  The widget's layer for one feature, and the layer \<open>L.geoJson\<close> returns (one
  sub-layer per feature). Layers and markers are objects: each has the identity the widget
  gave it.
\<close>

record feature_layer =
  fl_id :: nat
  fl_feature :: feature
  fl_style :: path_style

record geo_layer =
  gl_id :: nat
  gl_sub :: "feature_layer list"

text \<open>An icon object, \<open>L.icon(options)\<close>.\<close>

datatype icon = Icon json

text \<open>
  A marker, \<open>L.marker([lat, lng], {icon: ...})\<close>, with the content bound to its
  popup. \<open>m_icon = None\<close> is the option \<open>icon: undefined\<close>.
\<close>

record marker =
  m_id :: nat
  m_lat :: json
  m_lng :: json
  m_icon :: "icon option"
  m_popup :: json
  m_popup_open :: bool

text \<open>The coordinate object \<open>L.latLng(a, b)\<close> makes of its two arguments.\<close>

datatype coord = L_latLng json json

record view =
  northLat :: int
  eastLng :: int
  southLat :: int
  westLng :: int
  zoomLevel :: int

text \<open>
  The map widget, \<open>L.map(container, options)\<close>, as far as the module touches it:
  what it was built from, the tile layers, the GeoJSON layers and the markers added to it
  (by identity), the order in which the feature paths are painted (the last one is in
  front), the viewport (\<open>None\<close> until the map has a view) and the counter the
  identities come from. \<open>w_center\<close> is the value the constructor stored in
  \<open>options.center\<close>.
\<close>

record widget =
  container :: string
  w_options :: json
  w_center :: "coord option"
  tileLayers :: "(json \<times> json) list"
  geo_shown :: "nat list"
  markers_shown :: "nat list"
  paint_order :: "nat list"
  viewport :: "view option"
  next_layer_id :: nat

text \<open>
  A control with a \<open>div\<close>: the info panel (\<open>this._tooltip\<close>) with its
  \<open>update\<close> method.
\<close>

record info_control =
  div_display :: string
  div_innerHTML :: json

text \<open>
  The fields of a \<open>LeafletMap\<close>. \<open>mapInfo\<close> and \<open>markerIcon\<close>
  are \<open>this._mapInfo\<close> and \<open>this._markerIcon\<close>: the class reads them
  and no line of the file assigns them, so \<open>LeafletMap_new\<close> leaves them
  \<open>None\<close> (\<open>undefined\<close>). \<open>legendDiv\<close> is the
  \<open>innerHTML\<close> of \<open>this._legendDiv\<close>.
\<close>

record session =
  s_id :: json
  queueGeoJSON :: "zone list"
  lastGeoJSON :: "geo_layer option"
  markers :: "marker list"
  debouncer :: "nat option"
  lmap :: widget
  tooltip :: info_control
  legendDiv :: json
  mapInfo :: "info_control option"
  markerIcon :: "icon option"

section \<open>The manager, the host and the event loop\<close>

text \<open>
  One state for everything outside a session: the fields of \<open>LeafletMapManager\<close>
  (\<open>currentStepCache\<close>, \<open>maps\<close>, \<open>icons\<close>), the
  \<open>LeafletMap\<close> objects that exist (\<open>heap\<close>; \<open>maps\<close> holds
  references into it, and an object stays alive through the handlers it registered on its
  widget), what the module has told the host (\<open>outbox\<close> for
  \<open>RPGM.sendMessage\<close>, \<open>reported\<close> for
  \<open>RPGM.newJavascriptError\<close>, \<open>console\<close> for \<open>console.log\<close>),
  and the timers of \<open>setTimeout\<close> (identity, due time in ms, the session whose
  \<open>sendChange\<close> is the callback) with the clock. \<open>reporter_throws\<close>
  says whether the host's \<open>RPGM.newJavascriptError\<close> raises instead of
  returning; the host is not part of this repository, so both are allowed.
\<close>

record world =
  currentStepCache :: json
  maps :: "nat list"
  icons :: "(string \<times> icon) list"
  heap :: "session list"
  outbox :: "(string \<times> string \<times> json) list"
  reported :: "json list"
  reporter_throws :: bool
  console :: "string list"
  timers :: "(nat \<times> nat \<times> nat) list"
  clock :: nat
  next_timer :: nat

definition debug :: "world \<Rightarrow> string \<Rightarrow> world" where
  "debug w output = w\<lparr>console := console w @ [''[Leaflet] '' @ output]\<rparr>"

definition sendMessage :: "world \<Rightarrow> string \<Rightarrow> string \<Rightarrow> json \<Rightarrow> world" where
  "sendMessage w target message data = w\<lparr>outbox := outbox w @ [(target, message, data)]\<rparr>"

definition newJavascriptError :: "world \<Rightarrow> json \<Rightarrow> world" where
  "newJavascriptError w err = w\<lparr>reported := reported w @ [err]\<rparr>"

definition setTimeout :: "world \<Rightarrow> nat \<Rightarrow> nat \<Rightarrow> nat \<times> world" where
  "setTimeout w this delay =
     (next_timer w,
      w\<lparr>timers := timers w @ [(next_timer w, clock w + delay, this)],
        next_timer := Suc (next_timer w)\<rparr>)"

definition clearTimeout :: "world \<Rightarrow> nat \<Rightarrow> world" where
  "clearTimeout w tid = w\<lparr>timers := filter (\<lambda>(i, due, this). i \<noteq> tid) (timers w)\<rparr>"

section \<open>jsonToLatLng\<close>

text \<open>
  The condition of the \<open>if\<close>, evaluated left to right and stopping at the first
  disjunct that holds: \<open>typeof obj !== 'object' || !('lat' in obj) || !('lng' in obj)
  || typeof obj.lat !== 'number' || typeof obj.lng !== 'number'\<close>.
\<close>

definition jsonToLatLng_cond :: "json \<Rightarrow> js_error + bool" where
  "jsonToLatLng_cond obj =
     (if typeof obj \<noteq> ''object'' then Inr True
      else case has_prop ''lat'' obj of
        Inl e \<Rightarrow> Inl e
      | Inr False \<Rightarrow> Inr True
      | Inr True \<Rightarrow>
         (case has_prop ''lng'' obj of
            Inl e \<Rightarrow> Inl e
          | Inr False \<Rightarrow> Inr True
          | Inr True \<Rightarrow>
             (case get_prop obj ''lat'' of
                Inl e \<Rightarrow> Inl e
              | Inr a \<Rightarrow>
                 if typeof a \<noteq> ''number'' then Inr True
                 else (case get_prop obj ''lng'' of
                         Inl e \<Rightarrow> Inl e
                       | Inr b \<Rightarrow> Inr (typeof b \<noteq> ''number'')))))"

definition conversion_message :: json where
  "conversion_message =
     JObj [(''message'', JStr ''Could not convert an object to a LatLng object!'')]"

text \<open>
  The function reports and, unless the host's reporter raises, goes on to
  \<open>return L.latLng(obj.lat, obj.lng)\<close> whatever the condition was.
\<close>

definition jsonToLatLng :: "world \<Rightarrow> json \<Rightarrow> (js_error + coord) \<times> world" where
  "jsonToLatLng w obj =
     (case jsonToLatLng_cond obj of
        Inl e \<Rightarrow> (Inl e, w)
      | Inr bad \<Rightarrow>
         (let w1 = (if bad then newJavascriptError w conversion_message else w) in
          if bad \<and> reporter_throws w then (Inl HostError, w1)
          else case get_prop obj ''lat'' of
            Inl e \<Rightarrow> (Inl e, w1)
          | Inr a \<Rightarrow>
             (case get_prop obj ''lng'' of
                Inl e \<Rightarrow> (Inl e, w1)
              | Inr b \<Rightarrow> (Inr (L_latLng a b), w1))))"


section \<open>class LeafletMap\<close>

subsection \<open>The widget calls the class makes\<close>

text \<open>
  Leaflet is outside this repository; its calls are modelled by their documented effect
  on the widget. \<open>L.geoJson(collection, {style, onEachFeature})\<close> makes one
  sub-layer per feature, styled by the \<open>style\<close> function the module passes
  (\<open>default_style\<close>), with the module's hover and click handlers attached.
\<close>

definition default_style :: "feature \<Rightarrow> path_style" where
  "default_style f =
     \<lparr>fillColor = f_color f, opacity = 1, color = ''white'', dashArray = JNum 3,
      fillOpacity = 6 / 10, weight = None\<rparr>"

definition L_geoJson :: "widget \<Rightarrow> feature list \<Rightarrow> geo_layer \<times> widget" where
  "L_geoJson m fs =
     (let n = next_layer_id m in
      (\<lparr>gl_id = n,
        gl_sub = map (\<lambda>(i, f). \<lparr>fl_id = Suc n + i, fl_feature = f, fl_style = default_style f\<rparr>)
                   (enumerate 0 fs)\<rparr>,
       m\<lparr>next_layer_id := Suc n + length fs\<rparr>))"

definition layer_addTo :: "geo_layer \<Rightarrow> widget \<Rightarrow> widget" where
  "layer_addTo l m =
     (if gl_id l \<in> set (geo_shown m) then m
      else m\<lparr>geo_shown := geo_shown m @ [gl_id l],
             paint_order := paint_order m @ map fl_id (gl_sub l)\<rparr>)"

definition layer_remove :: "geo_layer \<Rightarrow> widget \<Rightarrow> widget" where
  "layer_remove l m =
     m\<lparr>geo_shown := removeAll (gl_id l) (geo_shown m),
       paint_order := filter (\<lambda>i. i \<notin> set (map fl_id (gl_sub l))) (paint_order m)\<rparr>"

definition bringToFront :: "nat \<Rightarrow> widget \<Rightarrow> widget" where
  "bringToFront i m =
     (if i \<in> set (paint_order m) then m\<lparr>paint_order := removeAll i (paint_order m) @ [i]\<rparr>
      else m)"

text \<open>
  \<open>L.marker([lat, lng], {icon: ic})\<close>. Leaflet makes the position with
  \<open>toLatLng\<close>: when \<open>typeof lat\<close> is not \<open>'object'\<close> it builds
  \<open>new LatLng(lat, lng)\<close>, which raises \<open>Invalid LatLng object\<close> if
  \<open>isNaN(lat) || isNaN(lng)\<close> (and \<open>TypeError\<close> if \<open>lng\<close>
  cannot be converted, in the test or in the error's message); otherwise the marker gets
  no position at all (\<open>null\<close>). \<open>m_lat\<close> and \<open>m_lng\<close> keep the
  two arguments.
\<close>

definition L_marker ::
  "widget \<Rightarrow> json \<Rightarrow> json \<Rightarrow> icon option \<Rightarrow> js_error + marker \<times> widget" where
  "L_marker m lat lng ic =
     (if typeof lat \<noteq> ''object'' \<and> \<not> printable lng then Inl TypeError
      else if typeof lat \<noteq> ''object'' \<and> (js_isNaN lat \<or> js_isNaN lng) then Inl LeafletError
      else Inr (\<lparr>m_id = next_layer_id m, m_lat = lat, m_lng = lng, m_icon = ic,
                 m_popup = JUndefined, m_popup_open = False\<rparr>,
                m\<lparr>next_layer_id := Suc (next_layer_id m)\<rparr>))"

text \<open>
  \<open>marker.addTo(map)\<close>. The map enters the marker among its layers; when the map
  has a view it then runs the marker's \<open>onAdd\<close> at once, which reads
  \<open>options.icon.createIcon\<close> and after that the position: it raises
  \<open>TypeError\<close> for a marker whose icon is \<open>undefined\<close> or whose position
  is \<open>null\<close>, with the marker left among the map's layers. On a map without a view
  \<open>onAdd\<close> waits for the view, and \<open>addTo\<close> returns.
\<close>

definition marker_addTo :: "marker \<Rightarrow> widget \<Rightarrow> completion \<times> widget" where
  "marker_addTo mk m =
     (if m_id mk \<in> set (markers_shown m) then (Normal, m)
      else (let m' = m\<lparr>markers_shown := markers_shown m @ [m_id mk]\<rparr> in
            if viewport m = None then (Normal, m')
            else if m_icon mk = None then (Throw TypeError, m')
            else if typeof (m_lat mk) = ''object'' then (Throw TypeError, m')
            else (Normal, m')))"

definition marker_remove :: "marker \<Rightarrow> widget \<Rightarrow> widget" where
  "marker_remove mk m = m\<lparr>markers_shown := removeAll (m_id mk) (markers_shown m)\<rparr>"

text \<open>
  \<open>this._tooltip.update(props)\<close>: \<open>display\<close> is \<open>'block'\<close> and the
  content \<open>props.tooltip\<close> when \<open>props\<close> is given, \<open>'none'\<close> and
  \<open>''\<close> when it is not.
\<close>

definition info_update :: "info_control \<Rightarrow> feature option \<Rightarrow> info_control" where
  "info_update c props =
     (case props of
        None \<Rightarrow> c\<lparr>div_display := ''none'', div_innerHTML := JStr []\<rparr>
      | Some f \<Rightarrow> c\<lparr>div_display := ''block'', div_innerHTML := f_tooltip f\<rparr>)"

subsection \<open>Methods that touch the session only\<close>

definition getId :: "session \<Rightarrow> json" where
  "getId s = s_id s"

definition addGeoJSON :: "session \<Rightarrow> json \<Rightarrow> json \<Rightarrow> json \<Rightarrow> json \<Rightarrow> session" where
  "addGeoJSON s zid points tip col =
     s\<lparr>queueGeoJSON := queueGeoJSON s @
          [\<lparr>z_points = points, z_id = zid, z_tooltip = tip, z_color = col\<rparr>]\<rparr>"

text \<open>
  \<open>try { isMultiple = Array.isArray(e.points[0][0]); } catch { isMultiple = false; }\<close>
\<close>

definition isMultiple :: "json \<Rightarrow> bool" where
  "isMultiple points =
     (case get_index points 0 of
        Inl e \<Rightarrow> False
      | Inr p0 \<Rightarrow> (case get_index p0 0 of Inl e \<Rightarrow> False | Inr p00 \<Rightarrow> isArray p00))"

text \<open>
  The callback of \<open>this._queueGeoJSON.map\<close>. The template literal
  \<open>`${e.id}`\<close> raises for an id that cannot be printed.
  \<open>e.points.map(p => [p])\<close> is a call of \<open>Array.prototype.map\<close> only
  when \<open>e.points\<close> is an array; on an object whose property \<open>0\<close> passed
  the test it raises.
\<close>

definition entry_feature :: "zone \<Rightarrow> js_error + feature" where
  "entry_feature e =
     (if \<not> printable (z_id e) then Inl TypeError
      else if isMultiple (z_points e)
      then (case z_points e of
              JArr ps \<Rightarrow>
                Inr \<lparr>f_id = js_String (z_id e), f_color = z_color e, f_tooltip = z_tooltip e,
                     g_type = MultiPolygon, coordinates = JArr (map (\<lambda>p. JArr [p]) ps)\<rparr>
            | _ \<Rightarrow> Inl TypeError)
      else Inr \<lparr>f_id = js_String (z_id e), f_color = z_color e, f_tooltip = z_tooltip e,
                g_type = Polygon, coordinates = JArr [z_points e]\<rparr>)"

fun build_features :: "zone list \<Rightarrow> js_error + feature list" where
  "build_features [] = Inr []"
| "build_features (e # es) =
     (case entry_feature e of
        Inl err \<Rightarrow> Inl err
      | Inr f \<Rightarrow> (case build_features es of Inl err \<Rightarrow> Inl err | Inr fs \<Rightarrow> Inr (f # fs)))"

text \<open>
  \<open>drawGeoJSON(geojson)\<close>; its parameter is not used. \<open>renders\<close> says of
  a feature collection whether \<open>L.geoJson\<close> accepts it; when it does not, the call
  raises after the queue has been emptied, and \<open>_lastGeoJSON\<close> still names the
  layer just removed.
\<close>

definition drawGeoJSON :: "(feature list \<Rightarrow> bool) \<Rightarrow> session \<Rightarrow> completion \<times> session" where
  "drawGeoJSON renders s =
     (let s1 = (case lastGeoJSON s of
                  None \<Rightarrow> s
                | Some l \<Rightarrow> s\<lparr>lmap := layer_remove l (lmap s)\<rparr>)
      in case build_features (queueGeoJSON s1) of
           Inl err \<Rightarrow> (Throw err, s1)
         | Inr fs \<Rightarrow>
            (let s2 = s1\<lparr>queueGeoJSON := []\<rparr> in
             if \<not> renders fs then (Throw LeafletError, s2)
             else (let (l, m) = L_geoJson (lmap s2) fs
                   in (Normal, s2\<lparr>lastGeoJSON := Some l, lmap := layer_addTo l m\<rparr>))))"

text \<open>
  \<open>layer.setStyle\<close> and \<open>resetStyle\<close> change the sub-layer with the
  target's identity, where the session holds it.
\<close>

definition update_sub :: "nat \<Rightarrow> (feature_layer \<Rightarrow> path_style) \<Rightarrow> session \<Rightarrow> session" where
  "update_sub i f s =
     s\<lparr>lastGeoJSON :=
         map_option
           (\<lambda>l. l\<lparr>gl_sub := map (\<lambda>x. if fl_id x = i then x\<lparr>fl_style := f x\<rparr> else x) (gl_sub l)\<rparr>)
           (lastGeoJSON s)\<rparr>"

text \<open>
  \<open>highlightFeature(e)\<close>, with \<open>e.target\<close> the hovered sub-layer. The last
  statement reads \<open>this._mapInfo.update\<close> before it evaluates the argument.
\<close>

definition highlightFeature :: "session \<Rightarrow> feature_layer \<Rightarrow> completion \<times> session" where
  "highlightFeature s target =
     (let s1 = update_sub (fl_id target)
                 (\<lambda>x. (fl_style x)\<lparr>weight := Some 5, color := ''#666'', dashArray := JStr [],
                                   fillOpacity := 7 / 10\<rparr>) s;
          s2 = s1\<lparr>lmap := bringToFront (fl_id target) (lmap s1)\<rparr>
      in case mapInfo s2 of
           None \<Rightarrow> (Throw TypeError, s2)
         | Some c \<Rightarrow> (Normal, s2\<lparr>mapInfo := Some (info_update c (Some (fl_feature target)))\<rparr>))"

definition resetHighlight :: "session \<Rightarrow> feature_layer \<Rightarrow> completion \<times> session" where
  "resetHighlight s target =
     (case lastGeoJSON s of
        None \<Rightarrow> (Throw TypeError, s)
      | Some l \<Rightarrow>
         (let s1 = update_sub (fl_id target) (\<lambda>x. default_style (fl_feature x)) s
          in case mapInfo s1 of
               None \<Rightarrow> (Throw TypeError, s1)
             | Some c \<Rightarrow> (Normal, s1\<lparr>mapInfo := Some (info_update c None)\<rparr>)))"

definition updateLegend :: "session \<Rightarrow> json \<Rightarrow> session" where
  "updateLegend s content = s\<lparr>legendDiv := content\<rparr>"

text \<open>
  The body of the \<open>forEach\<close> callback of \<open>updateMarkers\<close>:
  \<open>L.marker([m.lat, m.lng], {icon: this._markerIcon})\<close>,
  \<open>bindPopup(m.label)\<close>, the hover handler, \<open>addTo(this._map)\<close>,
  \<open>this._markers.push\<close>.
\<close>

definition add_marker :: "session \<Rightarrow> json \<Rightarrow> completion \<times> session" where
  "add_marker s m =
     (case get_prop m ''lat'' of
        Inl e \<Rightarrow> (Throw e, s)
      | Inr lat \<Rightarrow>
         (case get_prop m ''lng'' of
            Inl e \<Rightarrow> (Throw e, s)
          | Inr lng \<Rightarrow>
             (case L_marker (lmap s) lat lng (markerIcon s) of
                Inl e \<Rightarrow> (Throw e, s)
              | Inr (newMarker, wg) \<Rightarrow>
                 (case get_prop m ''label'' of
                    Inl e \<Rightarrow> (Throw e, s\<lparr>lmap := wg\<rparr>)
                  | Inr label \<Rightarrow>
                     (let bound = newMarker\<lparr>m_popup := label\<rparr> in
                      case marker_addTo bound wg of
                        (Throw e, wg') \<Rightarrow> (Throw e, s\<lparr>lmap := wg'\<rparr>)
                      | (Normal, wg') \<Rightarrow>
                         (Normal, s\<lparr>lmap := wg', markers := markers s @ [bound]\<rparr>))))))"

fun add_markers :: "json list \<Rightarrow> session \<Rightarrow> completion \<times> session" where
  "add_markers [] s = (Normal, s)"
| "add_markers (m # ms) s =
     (case add_marker s m of
        (Throw e, s') \<Rightarrow> (Throw e, s')
      | (Normal, s') \<Rightarrow> add_markers ms s')"

text \<open>
  \<open>updateMarkers(markers)\<close>: every marker of \<open>this._markers\<close> is removed
  from the map, the array is replaced by an empty one, then \<open>markers.forEach\<close>
  runs, which exists only on an array.
\<close>

definition updateMarkers :: "session \<Rightarrow> json \<Rightarrow> completion \<times> session" where
  "updateMarkers s ms =
     (let s1 = s\<lparr>lmap := fold marker_remove (markers s) (lmap s)\<rparr>;
          s2 = s1\<lparr>markers := []\<rparr>
      in case ms of JArr entries \<Rightarrow> add_markers entries s2 | _ \<Rightarrow> (Throw TypeError, s2))"

text \<open>The handler \<open>updateMarkers\<close> puts on each marker: hovering opens its popup.\<close>

definition marker_mouseover :: "session \<Rightarrow> nat \<Rightarrow> session" where
  "marker_mouseover s i =
     s\<lparr>markers := map (\<lambda>mk. if m_id mk = i then mk\<lparr>m_popup_open := True\<rparr> else mk) (markers s)\<rparr>"

definition loadingShow :: "session \<Rightarrow> session" where
  "loadingShow s = s"

definition loadingHide :: "session \<Rightarrow> session" where
  "loadingHide s = s"


subsection \<open>Methods that call the host, and the constructor\<close>

text \<open>
  These take the whole state and the address of \<open>this\<close> in the heap.
  \<open>sendChange\<close> reads the widget's bounds and zoom when it runs; the widget
  raises when it has no view yet.
\<close>

definition sendChange :: "world \<Rightarrow> nat \<Rightarrow> completion \<times> world" where
  "sendChange w this =
     (let s = heap w ! this in
      case viewport (lmap s) of
        None \<Rightarrow> (Throw LeafletError, w)
      | Some v \<Rightarrow>
         (Normal,
          sendMessage w ''r'' ''leaflet/onDidChangeView''
            (JObj [(''id'', s_id s), (''northLat'', JNum (northLat v)),
                   (''eastLng'', JNum (eastLng v)), (''southLat'', JNum (southLat v)),
                   (''westLng'', JNum (westLng v)), (''zoomLevel'', JNum (zoomLevel v))])))"

definition onMapViewChange :: "world \<Rightarrow> nat \<Rightarrow> world" where
  "onMapViewChange w this =
     (let w1 = (case debouncer (heap w ! this) of
                  None \<Rightarrow> w
                | Some tid \<Rightarrow> clearTimeout w tid);
          (tid, w2) = setTimeout w1 this 200
      in w2\<lparr>heap := (heap w2)[this := (heap w2 ! this)\<lparr>debouncer := Some tid\<rparr>]\<rparr>)"

definition zoomToFeature :: "world \<Rightarrow> nat \<Rightarrow> feature_layer \<Rightarrow> world" where
  "zoomToFeature w this target =
     sendMessage w ''r'' ''onDidClickZone''
       (JObj [(''id'', s_id (heap w ! this)), (''zoneId'', JStr (f_id (fl_feature target)))])"

text \<open>The callback given to \<open>whenReady\<close> and the handler of a click on the base map.\<close>

definition whenReady_callback :: "world \<Rightarrow> nat \<Rightarrow> world" where
  "whenReady_callback w this =
     sendMessage w ''r'' ''leaflet/onDidLoad'' (JObj [(''id'', s_id (heap w ! this))])"

definition map_click :: "world \<Rightarrow> nat \<Rightarrow> int \<Rightarrow> int \<Rightarrow> world" where
  "map_click w this lat lng =
     sendMessage w ''r'' ''leaflet/onDidClickMap''
       (JObj [(''id'', s_id (heap w ! this)), (''lat'', JNum lat), (''lng'', JNum lng)])"

definition legend_text :: string where
  "legend_text = ''L'' @ [CHR 0xC3, CHR 0xA9] @ ''gende''"

text \<open>
  \<open>new LeafletMap({id, layer, height, options, layerOptions})\<close>. The only
  statements that can raise are the read of \<open>options.options.center\<close>, the
  conversion of the centre and the template literal of the container's name, all before
  the widget exists. The new object is put at the end
  of the heap; the constructor stores a reference to it nowhere else. The info panel is
  added to the map at once, which runs its \<open>update()\<close> without an argument.
\<close>

definition LeafletMap_new ::
  "world \<Rightarrow> json \<Rightarrow> json \<Rightarrow> json \<Rightarrow> json \<Rightarrow> json \<Rightarrow> completion \<times> world" where
  "LeafletMap_new w oid layer height opts layerOptions =
     (case get_prop opts ''center'' of
        Inl e \<Rightarrow> (Throw e, w)
      | Inr c \<Rightarrow>
         (case (if truthy c
                then (case jsonToLatLng w c of
                        (Inl e, w1) \<Rightarrow> (Inl e, w1)
                      | (Inr ll, w1) \<Rightarrow> (Inr (Some ll), w1))
                else (Inr None, w)) of
            (Inl e, w1) \<Rightarrow> (Throw e, w1)
          | (Inr center, w1) \<Rightarrow>
             if \<not> printable oid then (Throw TypeError, w1)
             else
             (Normal,
              w1\<lparr>heap := heap w1 @
                [\<lparr>s_id = oid, queueGeoJSON = [], lastGeoJSON = None, markers = [],
                  debouncer = None,
                  lmap = \<lparr>container = ''leaflet-'' @ js_String oid, w_options = opts,
                          w_center = center, tileLayers = [(layer, layerOptions)],
                          geo_shown = [], markers_shown = [], paint_order = [],
                          viewport = None, next_layer_id = 0\<rparr>,
                  tooltip = info_update \<lparr>div_display = [], div_innerHTML = JStr []\<rparr> None,
                  legendDiv = JStr legend_text, mapInfo = None, markerIcon = None\<rparr>]\<rparr>)))"

section \<open>LeafletMapManager\<close>

text \<open>The manager's constructor, with a host that has seen nothing yet.\<close>

definition LeafletMapManager_new :: "bool \<Rightarrow> world" where
  "LeafletMapManager_new host_throws =
     \<lparr>currentStepCache = JNull, maps = [], icons = [], heap = [], outbox = [],
      reported = [], reporter_throws = host_throws, console = [], timers = [], clock = 0,
      next_timer = 1\<rparr>"

definition getMap :: "world \<Rightarrow> json \<Rightarrow> nat option" where
  "getMap w mapId = find (\<lambda>m. strict_eq (getId (heap w ! m)) mapId) (maps w)"

definition didEnterStep :: "world \<Rightarrow> json \<Rightarrow> world" where
  "didEnterStep w stepId =
     (let w1 = debug w ''Sending onDidEnterStep...'';
          w2 = w1\<lparr>currentStepCache := stepId\<rparr>
      in sendMessage w2 ''r'' ''leaflet/onDidEnterStep'' (JObj [(''stepId'', currentStepCache w2)]))"

text \<open>
  A read \<open>v.k\<close> of a value that an earlier read has shown to be neither
  \<open>undefined\<close> nor \<open>null\<close>, and a missing argument of a call.
\<close>

definition read_prop :: "json \<Rightarrow> string \<Rightarrow> json" where
  "read_prop v k = (case get_prop v k of Inl e \<Rightarrow> JUndefined | Inr x \<Rightarrow> x)"

definition nth_arg :: "json list \<Rightarrow> nat \<Rightarrow> json" where
  "nth_arg args i = (if i < length args then args ! i else JUndefined)"

definition on_session :: "world \<Rightarrow> nat \<Rightarrow> (session \<Rightarrow> completion \<times> session) \<Rightarrow> completion \<times> world" where
  "on_session w this f =
     (let (c, s') = f (heap w ! this) in (c, w\<lparr>heap := (heap w)[this := s']\<rparr>))"

text \<open>
  The methods \<open>class LeafletMap\<close> defines are \<open>getId\<close>,
  \<open>onMapViewChange\<close>, \<open>sendChange\<close>, \<open>addGeoJSON\<close>,
  \<open>drawGeoJSON\<close>, \<open>highlightFeature\<close>, \<open>resetHighlight\<close>,
  \<open>zoomToFeature\<close>, \<open>updateLegend\<close>, \<open>updateMarkers\<close>,
  \<open>loadingShow\<close> and \<open>loadingHide\<close>.
\<close>

definition LeafletMap_methods :: "string list" where
  "LeafletMap_methods =
     [''getId'', ''onMapViewChange'', ''sendChange'', ''addGeoJSON'', ''drawGeoJSON'',
      ''highlightFeature'', ''resetHighlight'', ''zoomToFeature'', ''updateLegend'',
      ''updateMarkers'', ''loadingShow'', ''loadingHide'']"

text \<open>
  \<open>mapInstance.name(args)\<close> as the message handler writes it. A name the class
  does not define reads as \<open>undefined\<close>, and calling it raises
  \<open>TypeError\<close>. Of the names the class defines, the five the handler calls are
  spelled out; the last branch stands for the other seven (modelled as functions of their
  own above and below), and no call of the handler reaches it.
\<close>

definition LeafletMap_call :: "world \<Rightarrow> nat \<Rightarrow> string \<Rightarrow> json list \<Rightarrow> completion \<times> world" where
  "LeafletMap_call w this name args =
     (if name \<notin> set LeafletMap_methods then (Throw TypeError, w)
      else if name = ''updateMarkers'' then on_session w this (\<lambda>s. updateMarkers s (nth_arg args 0))
      else if name = ''updateLegend'' then
        on_session w this (\<lambda>s. (Normal, updateLegend s (nth_arg args 0)))
      else if name = ''addGeoJSON'' then
        on_session w this
          (\<lambda>s. (Normal, addGeoJSON s (nth_arg args 0) (nth_arg args 1) (nth_arg args 2) (nth_arg args 3)))
      else if name = ''loadingShow'' then on_session w this (\<lambda>s. (Normal, loadingShow s))
      else if name = ''loadingHide'' then on_session w this (\<lambda>s. (Normal, loadingHide s))
      else (Normal, w))"

text \<open>
  \<open>this._icons[key] = value\<close>: the array gets a property named by the key's
  string, and the assignment raises for a key that cannot be printed. Nothing reads \<open>_icons\<close> again: \<open>getIcon\<close> is called nowhere
  in the file.
\<close>

definition icons_set :: "(string \<times> icon) list \<Rightarrow> string \<Rightarrow> icon \<Rightarrow> (string \<times> icon) list" where
  "icons_set ics k v = filter (\<lambda>(k', v'). k' \<noteq> k) ics @ [(k, v)]"

text \<open>The handler of \<open>didReceiveMessage\<close>.\<close>

definition didReceiveMessage :: "world \<Rightarrow> string \<Rightarrow> json \<Rightarrow> completion \<times> world" where
  "didReceiveMessage w message data =
     (if message = ''leaflet/enterStep'' \<and> currentStepCache w \<noteq> JNull then
        (Normal,
         sendMessage (debug w ''Force to send onDidEnterStep...'') ''r''
           ''leaflet/onDidEnterStep'' (JObj [(''stepId'', currentStepCache w)]))
      else if message = ''leaflet/icon/create'' then
        (case get_prop data ''iconId'' of
           Inl e \<Rightarrow> (Throw e, w)
         | Inr iconId \<Rightarrow>
            if \<not> printable iconId then (Throw TypeError, w)
            else
            (Normal,
             w\<lparr>icons := icons_set (icons w) (js_String iconId) (Icon (read_prop data ''options''))\<rparr>))
      else if message = ''leaflet/initialize'' then
        (let w1 = debug w ''Initializing a new map...'' in
         case get_prop data ''mapId'' of
           Inl e \<Rightarrow> (Throw e, w1)
         | Inr mapId \<Rightarrow>
            LeafletMap_new w1 mapId (read_prop data ''layer'') (read_prop data ''height'')
              (read_prop data ''options'') (read_prop data ''layerOptions''))
      else
        (case get_prop data ''mapId'' of
           Inl e \<Rightarrow> (Throw e, w)
         | Inr mapId \<Rightarrow>
            (case getMap w mapId of
               None \<Rightarrow> (Normal, w)
             | Some mapInstance \<Rightarrow>
                if message = ''leaflet/map/view'' then
                  LeafletMap_call w mapInstance ''setView'' [read_prop data ''center'', read_prop data ''zoom'']
                else if message = ''leaflet/map/zoom'' then
                  LeafletMap_call w mapInstance ''setZoom'' [read_prop data ''zoom'']
                else if message = ''leaflet/map/fit'' then
                  LeafletMap_call w mapInstance ''fitBounds'' [read_prop data ''bounds'']
                else if message = ''leaflet/markers/update'' then
                  LeafletMap_call w mapInstance ''updateMarkers'' [read_prop data ''markers'']
                else if message = ''leaflet/legend/update'' then
                  LeafletMap_call w mapInstance ''updateLegend'' [read_prop data ''content'']
                else if message = ''leaflet/geojson/add'' then
                  LeafletMap_call w mapInstance ''addGeoJSON''
                    [read_prop data ''zoneId'', read_prop data ''points'', read_prop data ''tooltip'',
                     read_prop data ''color'']
                else if message = ''leaflet/geojson/flush'' then
                  LeafletMap_call w mapInstance ''flushGeoJSON'' []
                else if message = ''leaflet/loading/show'' then
                  LeafletMap_call w mapInstance ''loadingShow'' []
                else if message = ''leaflet/loading/false'' then
                  LeafletMap_call w mapInstance ''loadingHide'' []
                else (Normal, w))))"

section \<open>The event loop: view changes and timers\<close>

text \<open>
  The widget ends a pan or a zoom with its viewport changed and then fires
  \<open>moveend\<close> or \<open>zoomend\<close>, to which the constructor bound
  \<open>onMapViewChange\<close>.
\<close>

definition view_changed :: "world \<Rightarrow> nat \<Rightarrow> view \<Rightarrow> world" where
  "view_changed w this v =
     onMapViewChange
       (w\<lparr>heap := (heap w)[this := (heap w ! this)\<lparr>lmap := (lmap (heap w ! this))\<lparr>viewport := Some v\<rparr>\<rparr>]\<rparr>)
       this"

text \<open>
  \<open>d\<close> ms pass with no other event: the timers that fall due run in the order of
  their due times. The callback of every timer is a \<open>sendChange\<close>, which sets no
  timer; an exception it raises ends that callback only.
\<close>

definition advance :: "nat \<Rightarrow> world \<Rightarrow> world" where
  "advance d w =
     (let t = clock w + d;
          due = sort_key (\<lambda>(i, u, this). u) (filter (\<lambda>(i, u, this). u \<le> t) (timers w));
          w1 = w\<lparr>timers := filter (\<lambda>(i, u, this). \<not> u \<le> t) (timers w), clock := t\<rparr>
      in fold (\<lambda>(i, u, this) w'. snd (sendChange w' this)) due w1)"

text \<open>
  A run of view changes on one session: each entry is the time since the previous event
  and the viewport the pan or zoom ended with.
\<close>

fun burst :: "world \<Rightarrow> nat \<Rightarrow> (nat \<times> view) list \<Rightarrow> world" where
  "burst w this [] = w"
| "burst w this ((gap, v) # evs) = burst (view_changed (advance gap w) this v) this evs"


section \<open>Notions the properties are stated with\<close>

text \<open>A run of the message handler over a sequence of envelopes.\<close>

fun run :: "world \<Rightarrow> (string \<times> json) list \<Rightarrow> world" where
  "run w [] = w"
| "run w ((message, data) # rest) = run (snd (didReceiveMessage w message data)) rest"

text \<open>
  The message tags of the handler: the three it serves without a map, and the nine that
  need the session named by \<open>data.mapId\<close>.
\<close>

definition global_tags :: "string list" where
  "global_tags = [''leaflet/enterStep'', ''leaflet/icon/create'', ''leaflet/initialize'']"

definition map_scoped_tags :: "string list" where
  "map_scoped_tags =
     [''leaflet/map/view'', ''leaflet/map/zoom'', ''leaflet/map/fit'',
      ''leaflet/markers/update'', ''leaflet/legend/update'', ''leaflet/geojson/add'',
      ''leaflet/geojson/flush'', ''leaflet/loading/show'', ''leaflet/loading/false'']"

text \<open>An object with numeric \<open>lat\<close> and \<open>lng\<close> fields.\<close>

fun is_coord_object :: "json \<Rightarrow> bool" where
  "is_coord_object (JObj kvs) =
     (case map_of kvs ''lat'' of
        Some (JNum a) \<Rightarrow> (case map_of kvs ''lng'' of Some (JNum b) \<Rightarrow> True | _ \<Rightarrow> False)
      | _ \<Rightarrow> False)"
| "is_coord_object v = False"

text \<open>
  Modelled from the spec: the behaviour of the host's \<open>RPGM.newJavascriptError\<close>,
  which is not in the repository. The spec calls the report of a malformed coordinate
  object a fatal construction error, not recoverable locally: the reporter does not return
  to its caller.
\<close>

definition fatal_reporter :: "world \<Rightarrow> bool" where
  "fatal_reporter w = reporter_throws w"

text \<open>
  A coordinate pair; a flat sequence of coordinate pairs; a sequence of coordinate
  sequences, whose first element is itself a sequence of coordinate pairs, as the spec
  words the two shapes. \<open>nested_points\<close> and \<open>empty_first\<close> split the
  sequences by their first element: one that holds at least one coordinate pair, and an
  empty one.
\<close>

fun is_pair :: "json \<Rightarrow> bool" where
  "is_pair (JArr [JNum a, JNum b]) = True"
| "is_pair v = False"

fun flat_points :: "json \<Rightarrow> bool" where
  "flat_points (JArr ps) = list_all is_pair ps"
| "flat_points v = False"

fun coordinate_sequences :: "json \<Rightarrow> bool" where
  "coordinate_sequences (JArr (r # rs)) = list_all flat_points (r # rs)"
| "coordinate_sequences v = False"

fun nested_points :: "json \<Rightarrow> bool" where
  "nested_points (JArr (JArr (p # ps) # rs)) = list_all is_pair (p # ps)"
| "nested_points v = False"

fun empty_first :: "json \<Rightarrow> bool" where
  "empty_first (JArr (JArr [] # rs)) = True"
| "empty_first v = False"

text \<open>
  The features of the layer a flush renders: those of \<open>_lastGeoJSON\<close> after
  \<open>drawGeoJSON\<close> has returned normally.
\<close>

definition flushed :: "(feature list \<Rightarrow> bool) \<Rightarrow> session \<Rightarrow> feature list option" where
  "flushed renders s =
     (case drawGeoJSON renders s of
        (Normal, s') \<Rightarrow> map_option (\<lambda>l. map fl_feature (gl_sub l)) (lastGeoJSON s')
      | (Throw e, s') \<Rightarrow> None)"

text \<open>The outbound \<open>onDidChangeView\<close> message of a session for a viewport.\<close>

definition view_message :: "json \<Rightarrow> view \<Rightarrow> string \<times> string \<times> json" where
  "view_message sid v =
     (''r'', ''leaflet/onDidChangeView'',
      JObj [(''id'', sid), (''northLat'', JNum (northLat v)), (''eastLng'', JNum (eastLng v)),
            (''southLat'', JNum (southLat v)), (''westLng'', JNum (westLng v)),
            (''zoomLevel'', JNum (zoomLevel v))])"

text \<open>
  The state right after a view change of a session: its viewport is \<open>v\<close>, and the
  one timer there is was set just now and is the one \<open>_debouncer\<close> names.
\<close>

definition armed :: "world \<Rightarrow> nat \<Rightarrow> view \<Rightarrow> bool" where
  "armed w this v =
     (this < length (heap w) \<and> viewport (lmap (heap w ! this)) = Some v \<and>
      (case debouncer (heap w ! this) of
         None \<Rightarrow> False
       | Some tid \<Rightarrow> timers w = [(tid, clock w + 200, this)]))"

subsection \<open>Concrete states\<close>

text \<open>
  A new manager that has handled \<open>leaflet/initialize\<close> for the map \<open>m\<close>; the
  same state with the session entered in \<open>_maps\<close>, which no line of the module
  does; the session itself; and a session with one zone flushed by
  \<open>drawGeoJSON\<close>, with the sub-layer of that zone.
\<close>

definition init_data :: json where
  "init_data =
     JObj [(''mapId'', JStr ''m''), (''layer'', JStr ''tiles/{z}/{x}/{y}.png''),
           (''height'', JNum 400), (''options'', JObj [(''zoom'', JNum 5)]),
           (''layerOptions'', JObj [])]"

definition after_init :: world where
  "after_init =
     snd (didReceiveMessage (LeafletMapManager_new False) ''leaflet/initialize'' init_data)"

definition registered :: world where
  "registered = after_init\<lparr>maps := [0]\<rparr>"

definition new_session :: session where
  "new_session = heap after_init ! 0"

definition triangle :: json where
  "triangle = JArr [JArr [JNum 0, JNum 0], JArr [JNum 0, JNum 1], JArr [JNum 1, JNum 1]]"

definition drawn_session :: session where
  "drawn_session =
     snd (drawGeoJSON (\<lambda>fs. True)
            (addGeoJSON new_session (JNum 1) triangle (JStr ''t'') (JStr ''red'')))"

definition drawn_zone :: feature_layer where
  "drawn_zone =
     \<lparr>fl_id = 1,
      fl_feature = \<lparr>f_id = ''1'', f_color = JStr ''red'', f_tooltip = JStr ''t'',
                    g_type = Polygon, coordinates = JArr [triangle]\<rparr>,
      fl_style = \<lparr>fillColor = JStr ''red'', opacity = 1, color = ''white'',
                  dashArray = JNum 3, fillOpacity = 6 / 10, weight = None\<rparr>\<rparr>"


text \<open>
  Envelopes for the map \<open>m\<close>: a zone, an icon named \<open>pin\<close>, a marker that
  asks for that icon; the states after the registered session has queued the zone and
  after the manager has installed the icon; two viewports and two marker entries.
\<close>

definition zone_data :: json where
  "zone_data =
     JObj [(''mapId'', JStr ''m''), (''zoneId'', JNum 1), (''points'', triangle),
           (''tooltip'', JStr ''t''), (''color'', JStr ''red'')]"

definition queued :: world where
  "queued = snd (didReceiveMessage registered ''leaflet/geojson/add'' zone_data)"

definition icon_data :: json where
  "icon_data =
     JObj [(''iconId'', JStr ''pin''), (''options'', JObj [(''iconUrl'', JStr ''pin.png'')])]"

definition with_icon :: world where
  "with_icon = snd (didReceiveMessage registered ''leaflet/icon/create'' icon_data)"

definition pin_entry :: json where
  "pin_entry =
     JObj [(''lat'', JNum 48), (''lng'', JNum 2), (''label'', JStr ''Paris''),
           (''icon'', JStr ''pin'')]"

definition markers_data :: json where
  "markers_data = JObj [(''mapId'', JStr ''m''), (''markers'', JArr [pin_entry])]"

definition other_entry :: json where
  "other_entry = JObj [(''lat'', JNum 45), (''lng'', JNum 5), (''label'', JStr ''Lyon'')]"

definition view_a :: view where
  "view_a = \<lparr>northLat = 50, eastLng = 10, southLat = 40, westLng = 0, zoomLevel = 5\<rparr>"

definition view_b :: view where
  "view_b = \<lparr>northLat = 49, eastLng = 8, southLat = 44, westLng = 3, zoomLevel = 6\<rparr>"

text \<open>
  The registered state after a pan has ended on the map \<open>m\<close>, which gives the map
  a view, and its session; and a sequence of coordinate sequences whose first is empty.
\<close>

definition viewed :: world where
  "viewed = view_changed registered 0 view_a"

definition viewed_session :: session where
  "viewed_session = heap viewed ! 0"

definition hollow :: json where
  "hollow = JArr [JArr [], triangle]"

section \<open>Facts shared by the proofs\<close>

lemma after_init_value:
  "after_init =
     \<lparr>currentStepCache = JNull, maps = [], icons = [],
      heap = [\<lparr>s_id = JStr ''m'', queueGeoJSON = [], lastGeoJSON = None, markers = [],
               debouncer = None,
               lmap = \<lparr>container = ''leaflet-m'', w_options = JObj [(''zoom'', JNum 5)],
                       w_center = None,
                       tileLayers = [(JStr ''tiles/{z}/{x}/{y}.png'', JObj [])],
                       geo_shown = [], markers_shown = [], paint_order = [],
                       viewport = None, next_layer_id = 0\<rparr>,
               tooltip = \<lparr>div_display = ''none'', div_innerHTML = JStr []\<rparr>,
               legendDiv = JStr legend_text, mapInfo = None, markerIcon = None\<rparr>],
      outbox = [], reported = [], reporter_throws = False,
      console = [''[Leaflet] Initializing a new map...''], timers = [], clock = 0,
      next_timer = 1\<rparr>"
  by (simp add: after_init_def didReceiveMessage_def init_data_def LeafletMapManager_new_def
      LeafletMap_new_def read_prop_def debug_def info_update_def)

lemma drawn_session_value:
  "drawn_session =
     new_session\<lparr>lastGeoJSON := Some \<lparr>gl_id = 0, gl_sub = [drawn_zone]\<rparr>,
       lmap := (lmap new_session)\<lparr>geo_shown := [0], paint_order := [1], next_layer_id := 2\<rparr>\<rparr>"
  by (simp add: drawn_session_def new_session_def after_init_value drawGeoJSON_def addGeoJSON_def
      entry_feature_def isMultiple_def triangle_def L_geoJson_def layer_addTo_def drawn_zone_def
      default_style_def digits.simps)

lemma getMap_registered: "getMap registered (JStr ''m'') = Some 0"
  by (simp add: registered_def after_init_value getMap_def getId_def)

lemma jsonToLatLng_maps: "maps (snd (jsonToLatLng w obj)) = maps w"
  by (simp add: jsonToLatLng_def newJavascriptError_def Let_def split: sum.splits)

lemma LeafletMap_new_maps: "maps (snd (LeafletMap_new w oid layer height opts lo)) = maps w"
proof (cases "jsonToLatLng w (read_prop opts ''center'')")
  case (Pair r w1)
  with jsonToLatLng_maps[of w "read_prop opts ''center''"] have "maps w1 = maps w" by simp
  with Pair show ?thesis
    by (cases r) (simp_all add: LeafletMap_new_def read_prop_def split: sum.splits)
qed

lemma LeafletMap_call_maps: "maps (snd (LeafletMap_call w this name args)) = maps w"
  by (simp add: LeafletMap_call_def on_session_def split_beta)

lemma didReceiveMessage_maps: "maps (snd (didReceiveMessage w message data)) = maps w"
  by (simp add: didReceiveMessage_def LeafletMap_new_maps LeafletMap_call_maps debug_def
      sendMessage_def Let_def split: sum.splits option.splits)

lemma run_maps: "maps (run w msgs) = maps w"
  by (induction w msgs rule: run.induct) (simp_all add: didReceiveMessage_maps)

subsection \<open>The unassigned fields and the undefined methods, in general\<close>

text \<open>
  The constructor leaves \<open>_mapInfo\<close> and \<open>_markerIcon\<close> undefined. With
  \<open>_mapInfo\<close> undefined both hover handlers raise and leave the info panel alone.
  Whatever \<open>updateMarkers\<close> is given, every marker it makes has the session's
  \<open>_markerIcon\<close>; with that undefined, on a map that has a view, a replacement by
  one entry or more never returns normally and leaves the session without a marker. Four
  of the nine map-scoped messages call a method the class does not define and raise for
  every registered session. \<open>drawGeoJSON\<close>, which no message reaches, empties the
  queue once the collection is built, whether or not the widget renders it.
\<close>

lemma undefined_method_raises:
  "name \<notin> set LeafletMap_methods \<Longrightarrow> LeafletMap_call w this name args = (Throw TypeError, w)"
  by (simp add: LeafletMap_call_def)

lemma undefined_methods_of_handler:
  "''setView'' \<notin> set LeafletMap_methods \<and> ''setZoom'' \<notin> set LeafletMap_methods \<and>
   ''fitBounds'' \<notin> set LeafletMap_methods \<and> ''flushGeoJSON'' \<notin> set LeafletMap_methods"
  by (simp add: LeafletMap_methods_def)

lemma flush_always_raises:
  assumes "get_prop data ''mapId'' = Inr mapId" and "getMap w mapId = Some this"
  shows "didReceiveMessage w ''leaflet/geojson/flush'' data = (Throw TypeError, w)"
  using assms undefined_methods_of_handler
  by (simp add: didReceiveMessage_def undefined_method_raises)

lemma view_messages_raise:
  assumes "get_prop data ''mapId'' = Inr mapId" and "getMap w mapId = Some this"
  shows "didReceiveMessage w ''leaflet/map/view'' data = (Throw TypeError, w)"
    and "didReceiveMessage w ''leaflet/map/zoom'' data = (Throw TypeError, w)"
    and "didReceiveMessage w ''leaflet/map/fit'' data = (Throw TypeError, w)"
  using assms undefined_methods_of_handler
  by (simp_all add: didReceiveMessage_def undefined_method_raises)

lemma drawGeoJSON_empties_queue:
  "build_features (queueGeoJSON s) = Inr fs \<Longrightarrow> queueGeoJSON (snd (drawGeoJSON renders s)) = []"
  by (auto simp: drawGeoJSON_def Let_def split: option.splits prod.splits)

lemma highlightFeature_raises:
  "mapInfo s = None \<Longrightarrow>
     fst (highlightFeature s target) = Throw TypeError \<and>
     tooltip (snd (highlightFeature s target)) = tooltip s"
  by (simp add: highlightFeature_def update_sub_def Let_def)

lemma resetHighlight_raises:
  "mapInfo s = None \<Longrightarrow>
     fst (resetHighlight s target) = Throw TypeError \<and>
     tooltip (snd (resetHighlight s target)) = tooltip s"
  by (simp add: resetHighlight_def update_sub_def Let_def split: option.splits)

lemma constructor_leaves_unassigned:
  assumes "LeafletMap_new w oid layer height opts lo = (Normal, w')"
  shows "mapInfo (last (heap w')) = None" and "markerIcon (last (heap w')) = None"
  using assms
  by (auto simp: LeafletMap_new_def read_prop_def split: sum.splits if_splits prod.splits)

lemma add_marker_icon:
  assumes "\<forall>mk \<in> set (markers s). m_icon mk = markerIcon s"
  shows "(\<forall>mk \<in> set (markers (snd (add_marker s e))). m_icon mk = markerIcon s) \<and>
         markerIcon (snd (add_marker s e)) = markerIcon s"
  using assms
  by (auto simp: add_marker_def L_marker_def Let_def
      split: sum.splits prod.splits completion.splits if_splits)

lemma add_markers_icon:
  "\<forall>mk \<in> set (markers s). m_icon mk = markerIcon s \<Longrightarrow>
     \<forall>mk \<in> set (markers (snd (add_markers es s))). m_icon mk = markerIcon s"
proof (induction es arbitrary: s)
  case Nil
  then show ?case by simp
next
  case (Cons e es)
  obtain c s' where r: "add_marker s e = (c, s')" by (cases "add_marker s e")
  from add_marker_icon[OF Cons.prems, of e] r
  have k: "\<forall>mk \<in> set (markers s'). m_icon mk = markerIcon s'" "markerIcon s' = markerIcon s"
    by simp_all
  show ?case
  proof (cases c)
    case Normal
    from Cons.IH[OF k(1)] show ?thesis by (simp add: r Normal k(2))
  next
    case (Throw err)
    then show ?thesis using k by (simp add: r)
  qed
qed

lemma updateMarkers_icon:
  "\<forall>mk \<in> set (markers (snd (updateMarkers s ms))). m_icon mk = markerIcon s"
proof (cases ms)
  case (JArr es)
  let ?s2 = "s\<lparr>lmap := fold marker_remove (markers s) (lmap s), markers := []\<rparr>"
  have "\<forall>mk \<in> set (markers (snd (add_markers es ?s2))). m_icon mk = markerIcon ?s2"
    by (rule add_markers_icon) simp
  then show ?thesis by (simp add: updateMarkers_def JArr)
qed (simp_all add: updateMarkers_def)

lemma fold_marker_remove:
  "fold marker_remove mks m =
     m\<lparr>markers_shown := filter (\<lambda>i. i \<notin> m_id ` set mks) (markers_shown m)\<rparr>"
proof (induction mks arbitrary: m)
  case Nil
  then show ?case by simp
next
  case (Cons a mks)
  have "filter (\<lambda>i. i \<notin> m_id ` set mks) (removeAll (m_id a) xs) =
        filter (\<lambda>i. i \<notin> m_id ` set (a # mks)) xs" for xs
    by (induction xs) auto
  then show ?case
    by (simp add: Cons.IH) (simp add: marker_remove_def)
qed

lemma add_marker_with_view_raises:
  assumes "viewport (lmap s) \<noteq> None" and "markerIcon s = None"
    and "next_layer_id (lmap s) \<notin> set (markers_shown (lmap s))"
  shows "fst (add_marker s e) \<noteq> Normal \<and> markers (snd (add_marker s e)) = markers s"
  using assms
  by (auto simp: add_marker_def L_marker_def marker_addTo_def Let_def
      split: sum.splits prod.splits completion.splits if_splits)

lemma updateMarkers_with_view_raises:
  assumes "viewport (lmap s) \<noteq> None" and "markerIcon s = None"
    and "\<forall>i \<in> set (markers_shown (lmap s)). i < next_layer_id (lmap s)"
  shows "fst (updateMarkers s (JArr (e # es))) \<noteq> Normal \<and>
         markers (snd (updateMarkers s (JArr (e # es)))) = []"
proof -
  let ?s2 = "s\<lparr>lmap := fold marker_remove (markers s) (lmap s), markers := []\<rparr>"
  have v: "viewport (lmap ?s2) \<noteq> None" "markerIcon ?s2 = None"
    using assms(1,2) by (simp_all add: fold_marker_remove)
  have f: "next_layer_id (lmap ?s2) \<notin> set (markers_shown (lmap ?s2))"
    using assms(3) by (auto simp: fold_marker_remove)
  obtain c s' where r: "add_marker ?s2 e = (c, s')" by (cases "add_marker ?s2 e")
  from add_marker_with_view_raises[OF v f, of e] r
  have "c \<noteq> Normal" "markers s' = []" by simp_all
  then obtain err where "c = Throw err" by (cases c) simp_all
  with r \<open>markers s' = []\<close> show ?thesis
    by (simp add: updateMarkers_def)
qed

subsection \<open>The message handler and the session it never finds\<close>

text \<open>
  C1. Claimed: a \<open>leaflet/initialize\<close> envelope for a map creates a session and
  registers it, so that every later map-scoped envelope for that map is looked up and
  dispatched to the session. The handler creates the session (it is in the heap, with the
  id \<open>m\<close>) and stores it nowhere: \<open>_maps\<close> is empty after any sequence of
  envelopes, \<open>getMap\<close> finds no session for any id, and a
  \<open>leaflet/markers/update\<close> for \<open>m\<close> right after the initialisation leaves
  the state as it was.
\<close>

theorem initialize_registers_nothing:
  "map s_id (heap after_init) = [JStr ''m''] \<and>
   getMap (run after_init msgs) mapId = None \<and>
   didReceiveMessage after_init ''leaflet/markers/update''
     (JObj [(''mapId'', JStr ''m''), (''markers'', JArr [])]) = (Normal, after_init)"
proof -
  have "maps (run after_init msgs) = []"
    by (simp add: run_maps) (simp add: after_init_value)
  then have "getMap (run after_init msgs) mapId = None"
    by (simp add: getMap_def)
  moreover have "map s_id (heap after_init) = [JStr ''m'']"
    by (simp add: after_init_value)
  moreover have "didReceiveMessage after_init ''leaflet/markers/update''
     (JObj [(''mapId'', JStr ''m''), (''markers'', JArr [])]) = (Normal, after_init)"
    by (simp add: didReceiveMessage_def getMap_def) (simp add: after_init_value)
  ultimately show ?thesis by simp
qed

lemma queued_value:
  "queued = registered\<lparr>heap := [new_session\<lparr>queueGeoJSON :=
      [\<lparr>z_points = triangle, z_id = JNum 1, z_tooltip = JStr ''t'', z_color = JStr ''red''\<rparr>]\<rparr>]\<rparr>"
  by (simp add: queued_def didReceiveMessage_def zone_data_def getMap_registered
      LeafletMap_call_def LeafletMap_methods_def on_session_def addGeoJSON_def nth_arg_def
      read_prop_def new_session_def)
    (simp add: registered_def after_init_value)

text \<open>
  C2. Claimed: for a registered session, a \<open>leaflet/geojson/flush\<close> envelope builds
  one feature collection from the queue, replaces the rendered layer and leaves the queue
  empty. The handler calls \<open>mapInstance.flushGeoJSON()\<close>, a method the class does
  not define (the flush is \<open>drawGeoJSON\<close>): with the session of \<open>m\<close>
  registered and one zone queued, the envelope raises \<open>TypeError\<close> and the state,
  queue included, is unchanged.
\<close>

theorem flush_message_raises:
  "getMap queued (JStr ''m'') = Some 0 \<and>
   length (queueGeoJSON (heap queued ! 0)) = 1 \<and>
   didReceiveMessage queued ''leaflet/geojson/flush'' (JObj [(''mapId'', JStr ''m'')]) =
     (Throw TypeError, queued)"
proof -
  have g: "getMap queued (JStr ''m'') = Some 0"
    by (simp add: queued_value getMap_def getId_def new_session_def)
      (simp add: registered_def after_init_value)
  have "length (queueGeoJSON (heap queued ! 0)) = 1"
    by (simp add: queued_value)
  moreover have "didReceiveMessage queued ''leaflet/geojson/flush'' (JObj [(''mapId'', JStr ''m'')]) =
     (Throw TypeError, queued)"
    by (simp add: didReceiveMessage_def g LeafletMap_call_def LeafletMap_methods_def)
  ultimately show ?thesis using g by simp
qed

text \<open>
  C4. Claimed: hovering a rendered zone raises its emphasis and shows its properties in the
  info panel, leaving it restores the style and clears the panel, a click sends
  \<open>onDidClickZone\<close> with the map id and the zone id. The two hover handlers end in
  \<open>this._mapInfo.update(...)\<close>, and \<open>_mapInfo\<close> is never assigned (the
  panel is \<open>this._tooltip\<close>): on a session with one flushed zone both raise
  \<open>TypeError\<close> and the panel stays hidden and empty. The click does send the
  message.
\<close>

theorem hover_never_reaches_info_panel:
  "mapInfo drawn_session = None \<and>
   lastGeoJSON drawn_session = Some \<lparr>gl_id = 0, gl_sub = [drawn_zone]\<rparr> \<and>
   fst (highlightFeature drawn_session drawn_zone) = Throw TypeError \<and>
   tooltip (snd (highlightFeature drawn_session drawn_zone)) =
     \<lparr>div_display = ''none'', div_innerHTML = JStr []\<rparr> \<and>
   fst (resetHighlight (snd (highlightFeature drawn_session drawn_zone)) drawn_zone) =
     Throw TypeError \<and>
   tooltip (snd (resetHighlight (snd (highlightFeature drawn_session drawn_zone)) drawn_zone)) =
     \<lparr>div_display = ''none'', div_innerHTML = JStr []\<rparr> \<and>
   outbox (zoomToFeature after_init 0 drawn_zone) =
     [(''r'', ''onDidClickZone'', JObj [(''id'', JStr ''m''), (''zoneId'', JStr ''1'')])]"
  by (simp add: drawn_session_value new_session_def after_init_value highlightFeature_def
      resetHighlight_def update_sub_def bringToFront_def drawn_zone_def default_style_def
      zoomToFeature_def sendMessage_def)

lemma with_icon_value:
  "with_icon = registered\<lparr>icons := [(''pin'', Icon (JObj [(''iconUrl'', JStr ''pin.png'')]))]\<rparr>"
  by (simp add: with_icon_def didReceiveMessage_def icon_data_def icons_set_def read_prop_def)
    (simp add: registered_def after_init_value)

text \<open>
  C5. Claimed: each marker of a \<open>markers/update\<close> is rendered with the icon
  installed under the entry's icon id, and with no icon when the id is unknown.
  \<open>updateMarkers\<close> gives every marker \<open>this._markerIcon\<close>, which is never
  assigned, and reads neither the entry's \<open>icon\<close> nor the registry: with the
  icon \<open>pin\<close> installed and an entry asking for \<open>pin\<close>, the update
  succeeds and the marker has no icon.
\<close>

theorem marker_ignores_icon_registry:
  "map_of (icons with_icon) ''pin'' = Some (Icon (JObj [(''iconUrl'', JStr ''pin.png'')])) \<and>
   read_prop pin_entry ''icon'' = JStr ''pin'' \<and>
   fst (didReceiveMessage with_icon ''leaflet/markers/update'' markers_data) = Normal \<and>
   map m_icon (markers (heap (snd (didReceiveMessage with_icon ''leaflet/markers/update''
      markers_data)) ! 0)) = [None]"
proof -
  have g: "getMap with_icon (JStr ''m'') = Some 0"
    by (simp add: with_icon_value getMap_def getId_def) (simp add: registered_def after_init_value)
  have h: "heap with_icon ! 0 = new_session"
    by (simp add: with_icon_value new_session_def registered_def)
  have n: "markers new_session = [] \<and> markerIcon new_session = None \<and> markers_shown (lmap new_session) = []"
    by (simp add: new_session_def after_init_value)
  have u: "didReceiveMessage with_icon ''leaflet/markers/update'' markers_data =
     on_session with_icon 0 (\<lambda>s. updateMarkers s (JArr [pin_entry]))"
    by (simp add: didReceiveMessage_def markers_data_def g LeafletMap_call_def
        LeafletMap_methods_def nth_arg_def read_prop_def)
  have m: "updateMarkers new_session (JArr [pin_entry]) =
     (Normal, new_session\<lparr>lmap := (lmap new_session)\<lparr>next_layer_id := Suc (next_layer_id (lmap new_session)), markers_shown := [next_layer_id (lmap new_session)]\<rparr>,
        markers := [\<lparr>m_id = next_layer_id (lmap new_session), m_lat = JNum 48, m_lng = JNum 2,
                     m_icon = None, m_popup = JStr ''Paris'', m_popup_open = False\<rparr>]\<rparr>)"
    by (simp add: updateMarkers_def n add_marker_def pin_entry_def L_marker_def marker_addTo_def)
      (simp add: new_session_def after_init_value)
  have "map_of (icons with_icon) ''pin'' = Some (Icon (JObj [(''iconUrl'', JStr ''pin.png'')]))"
    by (simp add: with_icon_value)
  moreover have "read_prop pin_entry ''icon'' = JStr ''pin''"
    by (simp add: pin_entry_def read_prop_def)
  moreover have "fst (didReceiveMessage with_icon ''leaflet/markers/update'' markers_data) = Normal"
    by (simp add: u on_session_def h m)
  moreover have "map m_icon (markers (heap (snd (didReceiveMessage with_icon
      ''leaflet/markers/update'' markers_data)) ! 0)) = [None]"
    by (simp add: u on_session_def h m) (simp add: with_icon_value registered_def after_init_value)
  ultimately show ?thesis by simp
qed


subsection \<open>Envelopes the handler drops, and the loading toggles\<close>

lemma not_global: "message \<in> set map_scoped_tags \<Longrightarrow> message \<notin> set global_tags"
  by (auto simp: map_scoped_tags_def global_tags_def)

lemma drop_core:
  assumes "message \<notin> set global_tags"
    and "getMap w (read_prop data ''mapId'') = None \<or> message \<notin> set map_scoped_tags"
  shows "didReceiveMessage w message data =
           (if data = JNull \<or> data = JUndefined then Throw TypeError else Normal, w)"
proof -
  from assms(1) have g: "message \<noteq> ''leaflet/enterStep''" "message \<noteq> ''leaflet/icon/create''"
    "message \<noteq> ''leaflet/initialize''"
    by (simp_all add: global_tags_def)
  show ?thesis
  proof (cases "get_prop data ''mapId''")
    case (Inl e)
    then show ?thesis using g
      by (cases data) (simp_all add: didReceiveMessage_def)
  next
    case (Inr mapId)
    then have d: "data \<noteq> JNull" "data \<noteq> JUndefined" "read_prop data ''mapId'' = mapId"
      by (auto simp: read_prop_def)
    show ?thesis
    proof (cases "getMap w mapId")
      case None
      then show ?thesis using g Inr d by (simp add: didReceiveMessage_def)
    next
      case (Some a)
      with assms(2) d have "message \<notin> set map_scoped_tags" by simp
      then show ?thesis using g Inr d Some
        by (simp add: didReceiveMessage_def map_scoped_tags_def)
    qed
  qed
qed

text \<open>
  C9. For an envelope whose tag is none of the twelve the handler knows, and for a
  map-scoped envelope whose \<open>mapId\<close> names no registered session, the handler
  leaves the whole state as it was: the registry, every session, the outbox. It returns
  normally, or raises \<open>TypeError\<close> at \<open>data.mapId\<close> when the payload
  is \<open>null\<close> or \<open>undefined\<close>.
\<close>

theorem stray_envelope_dropped:
  assumes "message \<notin> set (global_tags @ map_scoped_tags) \<or>
           (message \<in> set map_scoped_tags \<and> getMap w (read_prop data ''mapId'') = None)"
  shows "didReceiveMessage w message data =
           (if data = JNull \<or> data = JUndefined then Throw TypeError else Normal, w)"
  using assms
proof
  assume "message \<notin> set (global_tags @ map_scoped_tags)"
  then show ?thesis by (intro drop_core) simp_all
next
  assume "message \<in> set map_scoped_tags \<and> getMap w (read_prop data ''mapId'') = None"
  then show ?thesis by (intro drop_core) (simp_all add: not_global)
qed

text \<open>The theorem at a concrete input.\<close>

theorem stray_envelope_dropped_witness:
  "''leaflet/map/rotate'' \<notin> set (global_tags @ map_scoped_tags) \<and>
   didReceiveMessage registered ''leaflet/map/rotate'' (JObj [(''mapId'', JStr ''m'')]) =
     (Normal, registered) \<and>
   ''leaflet/markers/update'' \<in> set map_scoped_tags \<and>
   getMap registered (read_prop (JObj [(''mapId'', JStr ''zz''), (''markers'', JArr [pin_entry])]) ''mapId'') = None \<and>
   didReceiveMessage registered ''leaflet/markers/update''
     (JObj [(''mapId'', JStr ''zz''), (''markers'', JArr [pin_entry])]) = (Normal, registered)"
  using stray_envelope_dropped[of "''leaflet/map/rotate''" registered "JObj [(''mapId'', JStr ''m'')]"]
    stray_envelope_dropped[of "''leaflet/markers/update''" registered
      "JObj [(''mapId'', JStr ''zz''), (''markers'', JArr [pin_entry])]"]
  by (simp add: global_tags_def map_scoped_tags_def read_prop_def getMap_def getId_def registered_def
      after_init_value)

text \<open>
  C10. A \<open>leaflet/loading/show\<close> or \<open>leaflet/loading/false\<close> envelope
  for a registered session returns normally and leaves the whole state as it was: every
  field of every session, the registry and the outbox.
\<close>

theorem loading_is_noop:
  assumes "message = ''leaflet/loading/show'' \<or> message = ''leaflet/loading/false''"
    and "get_prop data ''mapId'' = Inr mapId" and "getMap w mapId = Some this"
  shows "didReceiveMessage w message data = (Normal, w)"
  using assms(1)
proof
  assume "message = ''leaflet/loading/show''"
  then show ?thesis using assms(2,3)
    by (simp add: didReceiveMessage_def LeafletMap_call_def LeafletMap_methods_def on_session_def loadingShow_def)
next
  assume "message = ''leaflet/loading/false''"
  then show ?thesis using assms(2,3)
    by (simp add: didReceiveMessage_def LeafletMap_call_def LeafletMap_methods_def on_session_def loadingHide_def)
qed

text \<open>The theorem at a concrete input.\<close>

theorem loading_is_noop_witness:
  "get_prop (JObj [(''mapId'', JStr ''m'')]) ''mapId'' = Inr (JStr ''m'') \<and>
   getMap queued (JStr ''m'') = Some 0 \<and>
   didReceiveMessage queued ''leaflet/loading/show'' (JObj [(''mapId'', JStr ''m'')]) = (Normal, queued) \<and>
   didReceiveMessage queued ''leaflet/loading/false'' (JObj [(''mapId'', JStr ''m'')]) = (Normal, queued)"
proof -
  have g: "getMap queued (JStr ''m'') = Some 0"
    by (simp add: queued_value getMap_def getId_def new_session_def)
      (simp add: registered_def after_init_value)
  have p: "get_prop (JObj [(''mapId'', JStr ''m'')]) ''mapId'' = Inr (JStr ''m'')" by simp
  from loading_is_noop[of "''leaflet/loading/show''", OF _ p g]
    loading_is_noop[of "''leaflet/loading/false''", OF _ p g] g p
  show ?thesis by simp
qed

subsection \<open>The debounced view report\<close>

lemma view_changed_armed:
  assumes "this < length (heap w)"
    and "timers w = [] \<or>
         (\<exists>tid due. timers w = [(tid, due, this)] \<and> debouncer (heap w ! this) = Some tid)"
  shows "armed (view_changed w this v) this v"
    and "outbox (view_changed w this v) = outbox w"
    and "s_id (heap (view_changed w this v) ! this) = s_id (heap w ! this)"
  using assms
  by (auto simp: armed_def view_changed_def onMapViewChange_def setTimeout_def clearTimeout_def
      split: option.splits)

lemma advance_quiet:
  assumes "armed w this v" and "g < 200"
  shows "advance g w = w\<lparr>clock := clock w + g\<rparr>"
  using assms
  by (auto simp: armed_def advance_def split: option.splits)

lemma advance_idle:
  assumes "timers w = []"
  shows "advance g w = w\<lparr>clock := clock w + g\<rparr>"
  using assms by (simp add: advance_def)

lemma advance_fire:
  assumes "armed w this v" and "200 \<le> d"
  shows "outbox (advance d w) = outbox w @ [view_message (s_id (heap w ! this)) v]"
    and "timers (advance d w) = []"
  using assms
  by (auto simp: armed_def advance_def sendChange_def sendMessage_def view_message_def
      split: option.splits)

lemma step_armed:
  assumes "armed w this v" and "g < 200"
  shows "armed (view_changed (advance g w) this v') this v'"
    and "outbox (view_changed (advance g w) this v') = outbox w"
    and "s_id (heap (view_changed (advance g w) this v') ! this) = s_id (heap w ! this)"
proof -
  have a: "advance g w = w\<lparr>clock := clock w + g\<rparr>"
    by (rule advance_quiet[OF assms])
  have h: "this < length (heap (advance g w))"
    using assms(1) by (simp add: a armed_def)
  have t: "timers (advance g w) = [] \<or>
           (\<exists>tid due. timers (advance g w) = [(tid, due, this)] \<and>
                      debouncer (heap (advance g w) ! this) = Some tid)"
    using assms(1) by (auto simp: a armed_def split: option.splits)
  show "armed (view_changed (advance g w) this v') this v'"
    by (rule view_changed_armed(1)[OF h t])
  show "outbox (view_changed (advance g w) this v') = outbox w"
    using view_changed_armed(2)[OF h t] by (simp add: a)
  show "s_id (heap (view_changed (advance g w) this v') ! this) = s_id (heap w ! this)"
    using view_changed_armed(3)[OF h t] by (simp add: a)
qed

lemma burst_armed:
  assumes "armed w this v" and "list_all (\<lambda>(g, v'). g < 200) evs"
  shows "armed (burst w this evs) this (last (v # map snd evs)) \<and>
         outbox (burst w this evs) = outbox w \<and>
         s_id (heap (burst w this evs) ! this) = s_id (heap w ! this)"
  using assms
proof (induction evs arbitrary: w v)
  case Nil
  then show ?case by simp
next
  case (Cons e evs)
  obtain g v' where e: "e = (g, v')" by (cases e)
  from Cons.prems e have g: "g < 200" and rest: "list_all (\<lambda>(g, v'). g < 200) evs"
    by simp_all
  note st = step_armed[OF Cons.prems(1) g, of v']
  from Cons.IH[OF st(1) rest] st(2,3) show ?case
    by (simp add: e)
qed

lemma first_armed:
  assumes "this < length (heap w)" and "timers w = []"
  shows "armed (view_changed (advance g w) this v) this v"
    and "outbox (view_changed (advance g w) this v) = outbox w"
    and "s_id (heap (view_changed (advance g w) this v) ! this) = s_id (heap w ! this)"
proof -
  have a: "advance g w = w\<lparr>clock := clock w + g\<rparr>"
    by (rule advance_idle[OF assms(2)])
  have h: "this < length (heap (advance g w))" using assms(1) by (simp add: a)
  have t: "timers (advance g w) = [] \<or>
           (\<exists>tid due. timers (advance g w) = [(tid, due, this)] \<and>
                      debouncer (heap (advance g w) ! this) = Some tid)"
    using assms(2) by (simp add: a)
  show "armed (view_changed (advance g w) this v) this v"
    by (rule view_changed_armed(1)[OF h t])
  show "outbox (view_changed (advance g w) this v) = outbox w"
    using view_changed_armed(2)[OF h t] by (simp add: a)
  show "s_id (heap (view_changed (advance g w) this v) ! this) = s_id (heap w ! this)"
    using view_changed_armed(3)[OF h t] by (simp add: a)
qed

lemma armed_one_timer: "armed w this v \<Longrightarrow> length (timers w) = 1"
  by (auto simp: armed_def split: option.splits)

text \<open>
  C3. A session with no timer pending sees one or more view changes, each less than 200 ms
  after the one before, and then nothing for at least 200 ms. Exactly one message is sent,
  the \<open>onDidChangeView\<close> of the viewport of the last change; no timer is left; and
  after each of the changes at most one timer is pending.
\<close>

theorem debounce_coalesces:
  assumes "this < length (heap w)" and "timers w = []"
    and "list_all (\<lambda>(g, v). g < 200) evs" and "200 \<le> d"
  shows "outbox (advance d (burst w this ((g0, v0) # evs))) =
           outbox w @ [view_message (s_id (heap w ! this)) (last (v0 # map snd evs))] \<and>
         timers (advance d (burst w this ((g0, v0) # evs))) = [] \<and>
         (\<forall>n \<le> Suc (length evs). length (timers (burst w this (take n ((g0, v0) # evs)))) \<le> 1)"
proof -
  let ?w1 = "view_changed (advance g0 w) this v0"
  note f = first_armed[OF assms(1,2), of g0 v0]
  from burst_armed[OF f(1) assms(3)] f(2,3)
  have b: "armed (burst ?w1 this evs) this (last (v0 # map snd evs))"
    "outbox (burst ?w1 this evs) = outbox w"
    "s_id (heap (burst ?w1 this evs) ! this) = s_id (heap w ! this)"
    by simp_all
  from advance_fire[OF b(1) assms(4)] b(2,3)
  have "outbox (advance d (burst w this ((g0, v0) # evs))) =
           outbox w @ [view_message (s_id (heap w ! this)) (last (v0 # map snd evs))]"
    and "timers (advance d (burst w this ((g0, v0) # evs))) = []"
    by simp_all
  moreover have "\<forall>n \<le> Suc (length evs). length (timers (burst w this (take n ((g0, v0) # evs)))) \<le> 1"
  proof (intro allI impI)
    fix n assume "n \<le> Suc (length evs)"
    show "length (timers (burst w this (take n ((g0, v0) # evs)))) \<le> 1"
    proof (cases n)
      case 0
      then show ?thesis using assms(2) by simp
    next
      case (Suc k)
      have "list_all (\<lambda>(g, v). g < 200) (take k evs)"
        using assms(3) by (auto simp: list_all_iff dest: in_set_takeD)
      from burst_armed[OF f(1) this] have "armed (burst ?w1 this (take k evs)) this (last (v0 # map snd (take k evs)))"
        by simp
      from armed_one_timer[OF this] show ?thesis by (simp add: Suc)
    qed
  qed
  ultimately show ?thesis by simp
qed

text \<open>The theorem at a concrete input.\<close>

theorem debounce_coalesces_witness:
  "0 < length (heap after_init) \<and> timers after_init = [] \<and>
   list_all (\<lambda>(g, v). g < (200::nat)) [(50, view_b), (199, view_a), (120, view_b)] \<and>
   outbox (advance 200 (burst after_init 0 [(0, view_a), (50, view_b), (199, view_a), (120, view_b)])) =
     [view_message (JStr ''m'') view_b] \<and>
   timers (advance 200 (burst after_init 0 [(0, view_a), (50, view_b), (199, view_a), (120, view_b)])) = []"
  using debounce_coalesces[of 0 after_init "[(50, view_b), (199, view_a), (120, view_b)]" 200 0 view_a]
  by (simp add: after_init_value)

subsection \<open>jsonToLatLng\<close>


lemma cond_malformed:
  "obj \<noteq> JNull \<Longrightarrow> \<not> is_coord_object obj \<Longrightarrow> jsonToLatLng_cond obj = Inr True"
  by (cases obj) (auto simp: jsonToLatLng_cond_def split: option.splits json.splits)

text \<open>
  The constructor converts a centre only when it is truthy, so \<open>null\<close> never
  reaches \<open>jsonToLatLng\<close>; without a truthy centre no conversion takes place and
  nothing is reported.
\<close>

lemma truthy_not_null: "truthy obj \<Longrightarrow> obj \<noteq> JNull"
  by (cases obj) simp_all

lemma constructor_skips_falsy_centre:
  assumes "get_prop opts ''center'' = Inr c" and "\<not> truthy c"
  shows "reported (snd (LeafletMap_new w oid layer height opts lo)) = reported w"
  using assms by (simp add: LeafletMap_new_def)

lemma jsonToLatLng_malformed:
  assumes "obj \<noteq> JNull" and "\<not> is_coord_object obj"
  shows "snd (jsonToLatLng w obj) = newJavascriptError w conversion_message"
    and "fatal_reporter w \<Longrightarrow>
           jsonToLatLng w obj = (Inl HostError, newJavascriptError w conversion_message)"
  using cond_malformed[OF assms]
  by (cases obj; simp add: jsonToLatLng_def fatal_reporter_def Let_def split: sum.splits)+


text \<open>
  At the call site, with a fatal reporter: a truthy centre that is not well-formed is
  reported and the constructor raises, so that no session is made of it.
\<close>

lemma constructor_rejects_malformed_centre:
  assumes "get_prop opts ''center'' = Inr c" and "truthy c" and "\<not> is_coord_object c"
    and "fatal_reporter w"
  shows "LeafletMap_new w oid layer height opts lo =
           (Throw HostError, newJavascriptError w conversion_message)"
  using assms jsonToLatLng_malformed(2)[OF truthy_not_null[OF assms(2)] assms(3,4)]
  by (simp add: LeafletMap_new_def)

text \<open>
  Outside the claim: \<open>null\<close>, which the constructor's guard keeps away, raises at
  \<open>'lat' in null\<close> before anything is reported; and the function has no
  \<open>throw\<close> or \<open>return\<close> of its own after the report, so a reporter that
  returned would let it go on to \<open>L.latLng(obj.lat, obj.lng)\<close>.
\<close>

lemma jsonToLatLng_null: "jsonToLatLng w JNull = (Inl TypeError, w)"
  by (simp add: jsonToLatLng_def jsonToLatLng_cond_def)

lemma jsonToLatLng_continues:
  "obj \<noteq> JNull \<Longrightarrow> obj \<noteq> JUndefined \<Longrightarrow> \<not> is_coord_object obj \<Longrightarrow> \<not> reporter_throws w \<Longrightarrow>
     fst (jsonToLatLng w obj) = Inr (L_latLng (read_prop obj ''lat'') (read_prop obj ''lng''))"
  by (frule (1) cond_malformed)
    (cases obj; simp add: jsonToLatLng_def Let_def read_prop_def)



subsection \<open>Shape classification\<close>

lemma is_pair_cases: "is_pair p \<Longrightarrow> \<exists>a b. p = JArr [JNum a, JNum b]"
  by (induction p rule: is_pair.induct) simp_all

lemma flat_single: "flat_points pts \<Longrightarrow> \<not> isMultiple pts"
proof (cases pts)
  case (JArr ps)
  assume "flat_points pts"
  with JArr show ?thesis
    by (cases ps) (auto simp: isMultiple_def dest!: is_pair_cases)
qed simp_all

lemma nested_multiple: "nested_points pts \<Longrightarrow> isMultiple pts"
  by (induction pts rule: nested_points.induct)
    (auto simp: isMultiple_def dest!: is_pair_cases)

lemma empty_first_single: "empty_first pts \<Longrightarrow> \<not> isMultiple pts"
  by (induction pts rule: empty_first.induct) (simp_all add: isMultiple_def)

lemma entry_feature_of_sequence:
  assumes "isArray (z_points e)" and "printable (z_id e)"
  shows "\<exists>f. entry_feature e = Inr f \<and>
             g_type f = (if isMultiple (z_points e) then MultiPolygon else Polygon)"
  using assms by (cases "z_points e") (simp_all add: entry_feature_def)

lemma build_features_of_sequences:
  assumes "list_all (\<lambda>e. isArray (z_points e) \<and> printable (z_id e)) q"
  shows "\<exists>fs. build_features q = Inr fs \<and> length fs = length q \<and>
     (\<forall>i<length q. g_type (fs ! i) =
         (if isMultiple (z_points (q ! i)) then MultiPolygon else Polygon))"
  using assms
proof (induction q)
  case Nil
  then show ?case by simp
next
  case (Cons e q)
  from Cons obtain fs where fs: "build_features q = Inr fs" "length fs = length q"
    and r: "\<forall>i<length q. g_type (fs ! i) =
         (if isMultiple (z_points (q ! i)) then MultiPolygon else Polygon)"
    by auto
  from Cons.prems have "isArray (z_points e)" "printable (z_id e)" by simp_all
  from entry_feature_of_sequence[OF this] obtain f where
    f: "entry_feature e = Inr f"
       "g_type f = (if isMultiple (z_points e) then MultiPolygon else Polygon)"
    by blast
  have "build_features (e # q) = Inr (f # fs)" by (simp add: f fs)
  moreover have "\<forall>i<length (e # q). g_type ((f # fs) ! i) =
         (if isMultiple (z_points ((e # q) ! i)) then MultiPolygon else Polygon)"
  proof (intro allI impI)
    fix i assume "i < length (e # q)"
    then show "g_type ((f # fs) ! i) =
         (if isMultiple (z_points ((e # q) ! i)) then MultiPolygon else Polygon)"
      using f(2) r by (cases i) simp_all
  qed
  ultimately show ?case using fs by simp
qed

lemma L_geoJson_features: "L_geoJson m fs = (l, m') \<Longrightarrow> map fl_feature (gl_sub l) = fs"
  by (auto simp: L_geoJson_def Let_def split_beta comp_def)

lemma flushed_built:
  "build_features (queueGeoJSON s) = Inr fs \<Longrightarrow> renders fs \<Longrightarrow> flushed renders s = Some fs"
  by (auto simp: flushed_def drawGeoJSON_def Let_def split: option.splits prod.splits
      dest: L_geoJson_features)

lemma unrendered_raises:
  "build_features (queueGeoJSON s) = Inr fs \<Longrightarrow> \<not> renders fs \<Longrightarrow>
     fst (drawGeoJSON renders s) = Throw LeafletError"
  by (auto simp: drawGeoJSON_def Let_def split: option.splits)

text \<open>
  C6, as claimed: a zone whose \<open>points\<close> is a sequence of coordinate sequences, its
  first element itself a sequence of coordinate pairs, is emitted as a MultiPolygon. It
  fails where that first sequence is empty: for \<open>[[], [[0,0],[0,1],[1,1]]]\<close>, which
  is no flat sequence of pairs, \<open>points[0][0]\<close> is \<open>undefined\<close> and the
  collection \<open>drawGeoJSON\<close> builds for the widget holds a Polygon.
\<close>

theorem empty_first_ring_is_polygon:
  "coordinate_sequences hollow \<and> \<not> flat_points hollow \<and>
   build_features
     (queueGeoJSON (addGeoJSON new_session (JNum 2) hollow (JStr ''t'') (JStr ''red''))) =
     Inr [\<lparr>f_id = ''2'', f_color = JStr ''red'', f_tooltip = JStr ''t'', g_type = Polygon,
           coordinates = JArr [hollow]\<rparr>]"
  by (simp add: hollow_def triangle_def addGeoJSON_def new_session_def after_init_value
      entry_feature_def isMultiple_def digits.simps)

text \<open>
  C6, amended: when every queued zone has a sequence for \<open>points\<close> and an id that
  can be printed, the flush builds one feature per zone in queue order: a Polygon for a
  flat sequence of coordinate pairs, a MultiPolygon for a sequence whose first element is
  a sequence of coordinate pairs that holds at least one, and a Polygon where the first
  element is an empty sequence. If the widget accepts the collection, these are the
  features of the layer it renders.
\<close>

theorem flush_classifies_shapes:
  assumes "list_all (\<lambda>e. isArray (z_points e) \<and> printable (z_id e)) (queueGeoJSON s)"
  shows "\<exists>fs. build_features (queueGeoJSON s) = Inr fs \<and>
     length fs = length (queueGeoJSON s) \<and>
     (\<forall>i<length (queueGeoJSON s).
         (flat_points (z_points (queueGeoJSON s ! i)) \<longrightarrow> g_type (fs ! i) = Polygon) \<and>
         (nested_points (z_points (queueGeoJSON s ! i)) \<longrightarrow> g_type (fs ! i) = MultiPolygon) \<and>
         (empty_first (z_points (queueGeoJSON s ! i)) \<longrightarrow> g_type (fs ! i) = Polygon)) \<and>
     (renders fs \<longrightarrow> flushed renders s = Some fs)"
proof -
  from build_features_of_sequences[OF assms] obtain fs where
    fs: "build_features (queueGeoJSON s) = Inr fs" "length fs = length (queueGeoJSON s)"
    "\<forall>i<length (queueGeoJSON s). g_type (fs ! i) =
         (if isMultiple (z_points (queueGeoJSON s ! i)) then MultiPolygon else Polygon)"
    by blast
  have "\<forall>i<length (queueGeoJSON s).
         (flat_points (z_points (queueGeoJSON s ! i)) \<longrightarrow> g_type (fs ! i) = Polygon) \<and>
         (nested_points (z_points (queueGeoJSON s ! i)) \<longrightarrow> g_type (fs ! i) = MultiPolygon) \<and>
         (empty_first (z_points (queueGeoJSON s ! i)) \<longrightarrow> g_type (fs ! i) = Polygon)"
    using fs(3) flat_single nested_multiple empty_first_single by auto
  moreover have "renders fs \<longrightarrow> flushed renders s = Some fs"
    using flushed_built[of s fs renders, OF fs(1)] by simp
  ultimately show ?thesis using fs(1,2) by blast
qed

text \<open>
  The theorem at the two zones of the example: a triangle, and a sequence holding that
  triangle.
\<close>

theorem flush_classifies_shapes_witness:
  "flat_points triangle \<and> nested_points (JArr [triangle]) \<and>
   map_option (map g_type)
     (flushed (\<lambda>fs. True) (addGeoJSON new_session (JNum 1) triangle (JStr ''t'') (JStr ''red''))) =
     Some [Polygon] \<and>
   map_option (map g_type)
     (flushed (\<lambda>fs. True) (addGeoJSON new_session (JNum 2) (JArr [triangle]) (JStr ''t'') (JStr ''red''))) =
     Some [MultiPolygon]"
proof -
  let ?s1 = "addGeoJSON new_session (JNum 1) triangle (JStr ''t'') (JStr ''red'')"
  let ?s2 = "addGeoJSON new_session (JNum 2) (JArr [triangle]) (JStr ''t'') (JStr ''red'')"
  have q: "queueGeoJSON new_session = []" by (simp add: new_session_def after_init_value)
  have t: "flat_points triangle" "nested_points (JArr [triangle])" by (simp_all add: triangle_def)
  have q1: "queueGeoJSON ?s1 = [\<lparr>z_points = triangle, z_id = JNum 1, z_tooltip = JStr ''t'', z_color = JStr ''red''\<rparr>]"
    and q2: "queueGeoJSON ?s2 = [\<lparr>z_points = JArr [triangle], z_id = JNum 2, z_tooltip = JStr ''t'', z_color = JStr ''red''\<rparr>]"
    by (simp_all add: addGeoJSON_def q)
  have a: "isArray triangle" by (simp add: triangle_def)
  from flush_classifies_shapes[of ?s1 "\<lambda>fs. True"] t a
  obtain fs where a: "flushed (\<lambda>fs. True) ?s1 = Some fs" "length fs = 1" "g_type (fs ! 0) = Polygon"
    by (auto simp: q1)
  from flush_classifies_shapes[of ?s2 "\<lambda>fs. True"] t
  obtain gs where b: "flushed (\<lambda>fs. True) ?s2 = Some gs" "length gs = 1" "g_type (gs ! 0) = MultiPolygon"
    by (auto simp: q2)
  from a(2,3) have "map g_type fs = [Polygon]" by (cases fs) simp_all
  moreover from b(2,3) have "map g_type gs = [MultiPolygon]" by (cases gs) simp_all
  ultimately show ?thesis using a(1) b(1) t by simp
qed

subsection \<open>Marker replacement\<close>

lemma viewed_session_value:
  "viewed_session =
     new_session\<lparr>debouncer := Some 1, lmap := (lmap new_session)\<lparr>viewport := Some view_a\<rparr>\<rparr>"
  by (simp add: viewed_session_def viewed_def view_changed_def onMapViewChange_def
      setTimeout_def new_session_def registered_def after_init_value)

lemma getMap_viewed: "getMap viewed (JStr ''m'') = Some 0"
  by (simp add: viewed_def view_changed_def onMapViewChange_def setTimeout_def getMap_def
      getId_def registered_def after_init_value)

text \<open>
  C7. Claimed: after a marker replacement returns, the session's markers on the map are
  exactly one per entry. \<open>updateMarkers\<close> builds every marker with
  \<open>icon: this._markerIcon\<close>, which is never assigned, and on a map that has a view
  the widget raises when such a marker is added: for the session of \<open>m\<close> after a
  pan, a replacement by two entries raises \<open>TypeError\<close> at the first
  \<open>addTo\<close>, the session owns no marker, the first marker is left among the map's
  layers and the second entry is never reached; the same through the message handler.
\<close>

theorem replacement_raises_on_a_viewed_map:
  "viewport (lmap viewed_session) = Some view_a \<and>
   fst (updateMarkers viewed_session (JArr [pin_entry, other_entry])) = Throw TypeError \<and>
   markers (snd (updateMarkers viewed_session (JArr [pin_entry, other_entry]))) = [] \<and>
   markers_shown (lmap (snd (updateMarkers viewed_session (JArr [pin_entry, other_entry])))) =
     [0] \<and>
   fst (didReceiveMessage viewed ''leaflet/markers/update'' markers_data) = Throw TypeError \<and>
   markers (heap (snd (didReceiveMessage viewed ''leaflet/markers/update'' markers_data)) ! 0) =
     []"
proof -
  have n: "markers new_session = []" "markerIcon new_session = None"
    "markers_shown (lmap new_session) = []" "next_layer_id (lmap new_session) = 0"
    by (simp_all add: new_session_def after_init_value)
  have u: "updateMarkers viewed_session (JArr (pin_entry # rest)) =
     (Throw TypeError,
      viewed_session\<lparr>lmap := (lmap viewed_session)\<lparr>next_layer_id := 1, markers_shown := [0]\<rparr>\<rparr>)"
    for rest
    by (simp add: updateMarkers_def viewed_session_value n add_marker_def pin_entry_def
        L_marker_def marker_addTo_def)
  have h: "heap viewed ! 0 = viewed_session" "0 < length (heap viewed)"
    by (simp_all add: viewed_session_def viewed_def view_changed_def onMapViewChange_def
        setTimeout_def registered_def after_init_value)
  have d: "didReceiveMessage viewed ''leaflet/markers/update'' markers_data =
     on_session viewed 0 (\<lambda>s. updateMarkers s (JArr [pin_entry]))"
    by (simp add: didReceiveMessage_def markers_data_def getMap_viewed LeafletMap_call_def
        LeafletMap_methods_def nth_arg_def read_prop_def)
  have "viewport (lmap viewed_session) = Some view_a"
    by (simp add: viewed_session_value)
  moreover have "markers (snd (updateMarkers viewed_session (JArr [pin_entry, other_entry]))) = []"
    by (simp add: u) (simp add: viewed_session_value n)
  moreover have "markers (heap (snd (didReceiveMessage viewed ''leaflet/markers/update''
      markers_data)) ! 0) = []"
    using h(2) by (simp add: d on_session_def h(1) u) (simp add: viewed_session_value n)
  ultimately show ?thesis
    by (simp add: u d on_session_def h(1))
qed

end
